theory Spec2Isabelle
  imports Complex_Main
begin

section \<open>Tables, errors and the file store\<close>

text \<open>
  The two notebooks \<^verbatim>\<open>merge_old_new_results.ipynb\<close> and \<^verbatim>\<open>tables_to_excel.ipynb\<close>
  work on CSV tables through the pandas library. A table (a pandas \<^verbatim>\<open>DataFrame\<close>) is a
  list of column labels and a list of rows, each row a list of cells. Column labels are
  Python strings; they are modelled as the byte strings of their UTF-8 encoding, which
  compares equal exactly when the Python strings do. A cell read from a CSV file is a
  number or a missing value (an empty field, pandas' \<^verbatim>\<open>NaN\<close>). A number is the value
  \<^verbatim>\<open>pd.read_csv\<close> has parsed, an \<^verbatim>\<open>int64\<close> or a finite \<^verbatim>\<open>float64\<close>, each of which is a
  rational; how a decimal literal is rounded to a \<^verbatim>\<open>float64\<close> when the file is parsed is
  not modelled, nor are infinities. The types of the columns are not recorded: what
  depends on them (an \<^verbatim>\<open>int64\<close> above \<open>2 ^ 53\<close> that is converted to \<^verbatim>\<open>float64\<close> next to
  a \<^verbatim>\<open>float64\<close> column, the untyped columns of a file that has only its header line) is
  kept out of the statements about values by their hypotheses.
\<close>

datatype cell = Num rat | NaN

record 'a frame =
  columns :: "string list"
  rows :: "'a list list"

text \<open>
  The exceptions the notebooks can raise, by their Python classes: \<^verbatim>\<open>FileNotFoundError\<close>
  (from \<^verbatim>\<open>pd.read_csv\<close>, carrying the path), \<^verbatim>\<open>UndefinedVariableError\<close> (from
  \<^verbatim>\<open>DataFrame.query\<close>, carrying the name that is not a column), \<^verbatim>\<open>InvalidIndexError\<close> (from
  \<^verbatim>\<open>pd.concat\<close>, when columns with duplicate labels would have to be realigned),
  \<^verbatim>\<open>ValueError\<close> (from \<^verbatim>\<open>astype(int)\<close> on a missing value: pandas' \<^verbatim>\<open>ValueError\<close>, a
  subclass, for a numeric column, and the built-in class itself for an untyped column;
  also, in the exporter, for a sheet title with a reserved character), \<^verbatim>\<open>OSError\<close> (from
  \<^verbatim>\<open>to_csv\<close> and from opening the workbook, carrying the directory that does not exist), and
  \<^verbatim>\<open>IndexError\<close> (from saving a workbook that has no sheet).
\<close>

datatype error =
    FileNotFoundError string
  | UndefinedVariableError string
  | InvalidIndexError
  | ValueError
  | OSError string
  | IndexError

text \<open>
  The file system as the notebooks see it: the CSV files that exist, each with the table
  \<^verbatim>\<open>pd.read_csv\<close> parses from it, and the paths at which a file can be created or replaced
  (the parent directory exists and is writable).
\<close>

record store =
  files :: "string \<rightharpoonup> cell frame"
  writable :: "string \<Rightarrow> bool"

subsection \<open>Column labels of the source\<close>

text \<open>
  The year label (written here \<^verbatim>\<open>Aar\<close>: the letter U+00C5, then \<^verbatim>\<open>r\<close>) and the wastewater
  label (written here \<^verbatim>\<open>Avloep\<close>: \<^verbatim>\<open>Avl\<close>, the letter U+00F8, then \<^verbatim>\<open>p\<close>) hold non-ASCII
  letters: U+00C5 is the bytes C3 85 and U+00F8 the bytes C3 B8.
\<close>

definition Aar :: string where
  "Aar = [CHR 0xC3, CHR 0x85, CHR ''r'']"

definition Avloep :: string where
  "Avloep = [CHR ''A'', CHR ''v'', CHR ''l'', CHR 0xC3, CHR 0xB8, CHR ''p'']"

definition Befolkning :: string where
  "Befolkning = ''Befolkning''"

definition Bakgrun :: string where
  "Bakgrun = ''Bakgrun''"

definition Bakgrunn :: string where
  "Bakgrunn = ''Bakgrunn''"

section \<open>The reconciler: \<^verbatim>\<open>merge_old_new_results.ipynb\<close>\<close>

subsection \<open>Configuration\<close>

definition old_st :: int where
  "old_st = 1990"

definition old_end :: int where
  "old_end = 2017"

definition old_fold :: string where
  "old_fold = ''../report_2020/jose_data''"

definition new_fold :: string where
  "new_fold = ''../report_2020/data''"

definition merge_fold :: string where
  "merge_fold = ''../report_2020/jose_data_updated_2018-20''"

text \<open>
  \<^verbatim>\<open>fname_dict\<close>: the file name in the current store and the file name in the legacy
  store, in the order of the dictionary literal (the keys are pairwise different).
\<close>

definition fname_dict :: "(string \<times> string) list" where
  "fname_dict =
     [
      (''Norges kystomr'' @ [CHR 0xC3, CHR 0xA5] @ ''der_p.csv'',
       ''Hele_kysten_p.csv''),
      (''Norges kystomr'' @ [CHR 0xC3, CHR 0xA5] @ ''der_n.csv'',
       ''Hele_kysten_n.csv''),
      (''Sverige '' @ [CHR 0xE2, CHR 0x80, CHR 0x93] @ '' Str'' @ [CHR 0xC3, CHR 0xB8] @ ''mtangen fyr_p.csv'',
       ''Sverige_Str'' @ [CHR 0xC3, CHR 0xB8] @ ''mtangen_p.csv''),
      (''Sverige '' @ [CHR 0xE2, CHR 0x80, CHR 0x93] @ '' Str'' @ [CHR 0xC3, CHR 0xB8] @ ''mtangen fyr_n.csv'',
       ''Sverige_Str'' @ [CHR 0xC3, CHR 0xB8] @ ''mtangen_n.csv''),
      (''Indre Oslofjord_p.csv'',
       ''Indre_Oslofjord_p.csv''),
      (''Indre Oslofjord_n.csv'',
       ''Indre_Oslofjord_n.csv''),
      (''Svenskegrensa '' @ [CHR 0xE2, CHR 0x80, CHR 0x93] @ '' Lindesnes_p.csv'',
       ''Sverige_Lindesnes_p.csv''),
      (''Svenskegrensa '' @ [CHR 0xE2, CHR 0x80, CHR 0x93] @ '' Lindesnes_n.csv'',
       ''Sverige_Lindesnes_n.csv''),
      (''Lindesnes '' @ [CHR 0xE2, CHR 0x80, CHR 0x93] @ '' Stad_p.csv'',
       ''Lindesnes_stad_p.csv''),
      (''Lindesnes '' @ [CHR 0xE2, CHR 0x80, CHR 0x93] @ '' Stad_n.csv'',
       ''Lindesnes_stad_n.csv''),
      (''Stad '' @ [CHR 0xE2, CHR 0x80, CHR 0x93] @ '' Russland_p.csv'',
       ''Stad_Russland_p.csv''),
      (''Stad '' @ [CHR 0xE2, CHR 0x80, CHR 0x93] @ '' Russland_n.csv'',
       ''Stad_Russland_n.csv''),
      (''Glomma_p.csv'',
       ''Glomma_p.csv''),
      (''Glomma_n.csv'',
       ''Glomma_n.csv''),
      (''Vest-Viken_p.csv'',
       ''Vest-Viken_p.csv''),
      (''Vest-Viken_n.csv'',
       ''Vest-Viken_n.csv''),
      (''Agder_p.csv'',
       ''Agder_p.csv''),
      (''Agder_n.csv'',
       ''Agder_n.csv''),
      (''Rogaland_p.csv'',
       ''Rogaland_p.csv''),
      (''Rogaland_n.csv'',
       ''Rogaland_n.csv''),
      (''Hordaland_p.csv'',
       ''Hordaland_p.csv''),
      (''Hordaland_n.csv'',
       ''Hordaland_n.csv''),
      (''Sogn og Fjordane_p.csv'',
       ''Sogn_og_Fjordane_p.csv''),
      (''Sogn og Fjordane_n.csv'',
       ''Sogn_og_Fjordane_n.csv''),
      (''M'' @ [CHR 0xC3, CHR 0xB8] @ ''re og Romsdal_p.csv'',
       ''M'' @ [CHR 0xC3, CHR 0xB8] @ ''re_og_Romsdal_p.csv''),
      (''M'' @ [CHR 0xC3, CHR 0xB8] @ ''re og Romsdal_n.csv'',
       ''M'' @ [CHR 0xC3, CHR 0xB8] @ ''re_og_Romsdal_n.csv''),
      (''Tr'' @ [CHR 0xC3, CHR 0xB8] @ ''ndelag_p.csv'',
       ''Tr'' @ [CHR 0xC3, CHR 0xB8] @ ''ndelag_p.csv''),
      (''Tr'' @ [CHR 0xC3, CHR 0xB8] @ ''ndelag_n.csv'',
       ''Tr'' @ [CHR 0xC3, CHR 0xB8] @ ''ndelag_n.csv''),
      (''Nordland_p.csv'',
       ''Nordland_p.csv''),
      (''Nordland_n.csv'',
       ''Nordland_n.csv''),
      (''Troms_p.csv'',
       ''Troms_p.csv''),
      (''Troms_n.csv'',
       ''Troms_n.csv''),
      (''Finnmark_p.csv'',
       ''Finnmark_p.csv''),
      (''Finnmark_n.csv'',
       ''Finnmark_n.csv''),
      (''Nordsj'' @ [CHR 0xC3, CHR 0xB8] @ ''en_p.csv'',
       ''Nordsj'' @ [CHR 0xC3, CHR 0xB8] @ ''en_p.csv''),
      (''Nordsj'' @ [CHR 0xC3, CHR 0xB8] @ ''en_n.csv'',
       ''Nordsj'' @ [CHR 0xC3, CHR 0xB8] @ ''en_n.csv''),
      (''Norskehavet_p.csv'',
       ''Norskehav_p.csv''),
      (''Norskehavet_n.csv'',
       ''Norskehav_n.csv''),
      (''Barentshavet_p.csv'',
       ''Barentshavet_p.csv''),
      (''Barentshavet_n.csv'',
       ''Barentshavet_n.csv'')
     ]"

text \<open>\<^verbatim>\<open>os.path.join(a, b)\<close> on a POSIX system, for two components.\<close>

definition path_join :: "string \<Rightarrow> string \<Rightarrow> string" where
  "path_join a b =
     (if b \<noteq> [] \<and> hd b = CHR ''/'' then b
      else if a = [] \<or> last a = CHR ''/'' then a @ b
      else a @ ''/'' @ b)"

subsection \<open>The pandas operations the merge uses\<close>

text \<open>\<^verbatim>\<open>pd.read_csv(path)\<close>: the parsed table, or \<^verbatim>\<open>FileNotFoundError\<close> naming the path.\<close>

definition read_csv :: "store \<Rightarrow> string \<Rightarrow> error + cell frame" where
  "read_csv fs path =
     (case files fs path of
        None \<Rightarrow> Inl (FileNotFoundError path)
      | Some df \<Rightarrow> Inr df)"

text \<open>
  The cell of row \<open>r\<close> under the label \<open>c\<close>, for a table with labels \<open>cols\<close>: the first
  column so labelled; a missing value when there is none.
\<close>

definition cell_at :: "string list \<Rightarrow> cell list \<Rightarrow> string \<Rightarrow> cell" where
  "cell_at cols r c = (case map_of (zip cols r) c of None \<Rightarrow> NaN | Some v \<Rightarrow> v)"

text \<open>
  \<^verbatim>\<open>old_df.query("@old_st <= Aar <= @old_end")\<close>: the chained comparison is the conjunction
  of the two comparisons, both false on a missing value; the rows where it holds are kept,
  in order. A table without a column \<^verbatim>\<open>Aar\<close> raises \<^verbatim>\<open>UndefinedVariableError\<close>.
\<close>

definition in_window :: "int \<Rightarrow> int \<Rightarrow> cell \<Rightarrow> bool" where
  "in_window st en c =
     (case c of Num y \<Rightarrow> of_int st \<le> y \<and> y \<le> of_int en | NaN \<Rightarrow> False)"

definition windowed :: "int \<Rightarrow> int \<Rightarrow> cell frame \<Rightarrow> cell list list" where
  "windowed st en df = filter (\<lambda>r. in_window st en (cell_at (columns df) r Aar)) (rows df)"

definition query_df :: "int \<Rightarrow> int \<Rightarrow> cell frame \<Rightarrow> error + cell frame" where
  "query_df st en df =
     (if Aar \<in> set (columns df)
      then Inr (df\<lparr>rows := windowed st en df\<rparr>)
      else Inl (UndefinedVariableError Aar))"

text \<open>
  \<^verbatim>\<open>df.rename(mapper, axis="columns", inplace=True)\<close> with a dictionary: a label that is a
  key is replaced by its value, any other label stays. The dictionary of the source is
  \<^verbatim>\<open>{"Befolkning": "Avloep", "Bakgrun": "Bakgrunn"}\<close>.
\<close>

definition rename_label :: "(string \<times> string) list \<Rightarrow> string \<Rightarrow> string" where
  "rename_label mapper c = (case map_of mapper c of None \<Rightarrow> c | Some c' \<Rightarrow> c')"

definition rename_df :: "(string \<times> string) list \<Rightarrow> 'a frame \<Rightarrow> 'a frame" where
  "rename_df mapper df = df\<lparr>columns := map (rename_label mapper) (columns df)\<rparr>"

definition legacy_renames :: "(string \<times> string) list" where
  "legacy_renames = [(Befolkning, Avloep), (Bakgrun, Bakgrunn)]"

text \<open>
  \<^verbatim>\<open>pd.concat([old_df, new_df], axis="rows")\<close>: an outer join on the column labels, without
  sorting. Tables with the same labels in the same order are stacked as they are. Otherwise
  the result has the labels of the first table followed by the labels only the second one
  has; each row is realigned to them by label, with a missing value under a label its table
  does not have. Realigning a table with a duplicated label raises.
\<close>

definition reindex_row :: "string list \<Rightarrow> string list \<Rightarrow> cell list \<Rightarrow> cell list" where
  "reindex_row cols target r = map (cell_at cols r) target"

definition union_columns :: "string list \<Rightarrow> string list \<Rightarrow> string list" where
  "union_columns a b = a @ filter (\<lambda>c. c \<notin> set a) b"

definition concat_df :: "cell frame \<Rightarrow> cell frame \<Rightarrow> error + cell frame" where
  "concat_df a b =
     (if columns a = columns b
      then Inr \<lparr>columns = columns a, rows = rows a @ rows b\<rparr>
      else if \<not> distinct (columns a) \<or> \<not> distinct (columns b)
      then Inl InvalidIndexError
      else let cols = union_columns (columns a) (columns b)
           in Inr \<lparr>columns = cols,
                   rows = map (reindex_row (columns a) cols) (rows a)
                        @ map (reindex_row (columns b) cols) (rows b)\<rparr>)"

text \<open>
  \<^verbatim>\<open>.round(0)\<close>: every number goes to the nearest integer, a tie to the even neighbour
  (numpy's rule); a missing value stays missing.
\<close>

definition rint :: "rat \<Rightarrow> int" where
  "rint x =
     (let f = \<lfloor>x\<rfloor>; d = x - of_int f
      in if d < 1 / 2 then f
         else if 1 / 2 < d then f + 1
         else if even f then f else f + 1)"

fun round_cell :: "cell \<Rightarrow> cell" where
  "round_cell (Num x) = Num (of_int (rint x))"
| "round_cell NaN = NaN"

definition round_df :: "cell frame \<Rightarrow> cell frame" where
  "round_df df = df\<lparr>rows := map (map round_cell) (rows df)\<rparr>"

text \<open>
  \<^verbatim>\<open>.astype(int)\<close>: a number is cut to its integer part (towards zero) and stored as an
  \<^verbatim>\<open>int64\<close>; an integer part outside the range of \<^verbatim>\<open>int64\<close> comes out as the smallest
  \<^verbatim>\<open>int64\<close> (the result of the conversion instruction of x86-64). A missing value anywhere
  in the table raises \<^verbatim>\<open>ValueError\<close>.
\<close>

definition to_int64 :: "int \<Rightarrow> int" where
  "to_int64 n = (if - (2 ^ 63) \<le> n \<and> n < 2 ^ 63 then n else - (2 ^ 63))"

fun astype_int_cell :: "cell \<Rightarrow> int option" where
  "astype_int_cell (Num x) = Some (to_int64 (if 0 \<le> x then \<lfloor>x\<rfloor> else \<lceil>x\<rceil>))"
| "astype_int_cell NaN = None"

definition astype_int :: "cell frame \<Rightarrow> error + int frame" where
  "astype_int df =
     (case those (map (\<lambda>r. those (map astype_int_cell r)) (rows df)) of
        None \<Rightarrow> Inl ValueError
      | Some rs \<Rightarrow> Inr \<lparr>columns = columns df, rows = rs\<rparr>)"

text \<open>
  \<^verbatim>\<open>merge_df.to_csv(path, index=False)\<close>: the file at the path is created or replaced; it
  holds the labels and the rows, and no index column. Reading it back gives each integer
  as a number. A path that cannot be written, because its directory does not exist,
  raises \<^verbatim>\<open>OSError\<close> naming that directory (the path up to its last \<^verbatim>\<open>/\<close>).
\<close>

definition parent_dir :: "string \<Rightarrow> string" where
  "parent_dir path =
     (if CHR ''/'' \<notin> set path then ''.''
      else let d = rev (tl (dropWhile (\<lambda>c. c \<noteq> CHR ''/'') (rev path)))
           in if d = [] then ''/'' else d)"

definition csv_of_int_frame :: "int frame \<Rightarrow> cell frame" where
  "csv_of_int_frame df = \<lparr>columns = columns df, rows = map (map (\<lambda>n. Num (of_int n))) (rows df)\<rparr>"

definition to_csv :: "store \<Rightarrow> string \<Rightarrow> int frame \<Rightarrow> error + store" where
  "to_csv fs path df =
     (if writable fs path
      then Inr (fs\<lparr>files := (files fs)(path \<mapsto> csv_of_int_frame df)\<rparr>)
      else Inl (OSError (parent_dir path)))"

subsection \<open>The merge loop\<close>

text \<open>
  The body of the loop for one entry \<^verbatim>\<open>(new_fname, old_fname)\<close> of \<^verbatim>\<open>fname_dict\<close>. An
  exception leaves the store as it was.
\<close>

record config =
  cfg_old_st :: int
  cfg_old_end :: int
  cfg_old_fold :: string
  cfg_new_fold :: string
  cfg_merge_fold :: string

definition source_config :: config where
  "source_config =
     \<lparr>cfg_old_st = old_st, cfg_old_end = old_end, cfg_old_fold = old_fold,
      cfg_new_fold = new_fold, cfg_merge_fold = merge_fold\<rparr>"

text \<open>
  \<open>merge_frames\<close> is the expression
  \<^verbatim>\<open>pd.concat([old_df, new_df], axis="rows").round(0).astype(int)\<close> of the loop body.
\<close>

definition merge_frames :: "cell frame \<Rightarrow> cell frame \<Rightarrow> error + int frame" where
  "merge_frames old_df new_df =
     (case concat_df old_df new_df of
        Inl e \<Rightarrow> Inl e
      | Inr merge_df \<Rightarrow> astype_int (round_df merge_df))"

definition merge_pair :: "config \<Rightarrow> store \<Rightarrow> string \<Rightarrow> string \<Rightarrow> error + store" where
  "merge_pair cfg fs new_fname old_fname =
     (let new_fpath = path_join (cfg_new_fold cfg) new_fname;
          old_fpath = path_join (cfg_old_fold cfg) old_fname;
          out_fpath = path_join (cfg_merge_fold cfg) new_fname
      in case read_csv fs old_fpath of
           Inl e \<Rightarrow> Inl e
         | Inr old_df0 \<Rightarrow>
        (case query_df (cfg_old_st cfg) (cfg_old_end cfg) old_df0 of
           Inl e \<Rightarrow> Inl e
         | Inr old_df1 \<Rightarrow>
        (let old_df = rename_df legacy_renames old_df1
         in case read_csv fs new_fpath of
              Inl e \<Rightarrow> Inl e
            | Inr new_df \<Rightarrow>
           (case merge_frames old_df new_df of
              Inl e \<Rightarrow> Inl e
            | Inr merge_df \<Rightarrow> to_csv fs out_fpath merge_df))))"

text \<open>
  \<^verbatim>\<open>for new_fname, old_fname in fname_dict.items()\<close>: the entries in insertion order. The
  first exception ends the run; the result is the store at that moment and the exception,
  or the final store and no exception.
\<close>

fun merge_loop :: "config \<Rightarrow> store \<Rightarrow> (string \<times> string) list \<Rightarrow> store \<times> error option" where
  "merge_loop cfg fs [] = (fs, None)"
| "merge_loop cfg fs ((new_fname, old_fname) # rest) =
     (case merge_pair cfg fs new_fname old_fname of
        Inl e \<Rightarrow> (fs, Some e)
      | Inr fs' \<Rightarrow> merge_loop cfg fs' rest)"

section \<open>The exporter: \<^verbatim>\<open>tables_to_excel.ipynb\<close>\<close>

subsection \<open>Configuration\<close>

text \<open>
  The two paths are f-strings over \<^verbatim>\<open>year\<close>; they are given here as they evaluate for the
  year of the source.
\<close>

definition year :: int where
  "year = 2022"

definition xl_path :: string where
  "xl_path = ''../report_2022/report_2022_data_tables.xlsx''"

definition data_fold :: string where
  "data_fold = ''../report_2022/data''"

definition regions :: "string list" where
  "regions =
     [
      ''Norges kystomr'' @ [CHR 0xC3, CHR 0xA5] @ ''der'',
      ''Sverige '' @ [CHR 0xE2, CHR 0x80, CHR 0x93] @ '' Str'' @ [CHR 0xC3, CHR 0xB8] @ ''mtangen fyr'',
      ''Indre Oslofjord'',
      ''Svenskegrensa '' @ [CHR 0xE2, CHR 0x80, CHR 0x93] @ '' Lindesnes'',
      ''Lindesnes '' @ [CHR 0xE2, CHR 0x80, CHR 0x93] @ '' Stad'',
      ''Stad '' @ [CHR 0xE2, CHR 0x80, CHR 0x93] @ '' Russland'',
      ''Glomma'',
      ''Vest-Viken'',
      ''Agder'',
      ''Rogaland'',
      ''Hordaland'',
      ''Sogn og Fjordane'',
      ''M'' @ [CHR 0xC3, CHR 0xB8] @ ''re og Romsdal'',
      ''Tr'' @ [CHR 0xC3, CHR 0xB8] @ ''ndelag'',
      ''Nordland'',
      ''Troms'',
      ''Finnmark'',
      ''Nordsj'' @ [CHR 0xC3, CHR 0xB8] @ ''en'',
      ''Norskehavet'',
      ''Barentshavet''
     ]"

definition pars :: "string list" where
  "pars = [''p'', ''n'']"

subsection \<open>The workbook\<close>

text \<open>
  A worksheet is a grid of cells, row by row; a workbook is its sheets with their titles,
  in workbook order. \<^verbatim>\<open>df.to_excel(writer, sheet_name=..., index=False)\<close> writes the
  labels as the first row and one row per table row under it; a missing value is written
  as an empty cell. With \<^verbatim>\<open>index=True\<close> there would be one more column in front, holding
  the row numbers of a table fresh from \<^verbatim>\<open>pd.read_csv\<close>.
\<close>

datatype xl_value = XText string | XNumber rat | XBlank

type_synonym sheet = "xl_value list list"

type_synonym workbook = "(string \<times> sheet) list"

fun xl_of_cell :: "cell \<Rightarrow> xl_value" where
  "xl_of_cell (Num x) = XNumber x"
| "xl_of_cell NaN = XBlank"

definition frame_cells :: "bool \<Rightarrow> cell frame \<Rightarrow> sheet" where
  "frame_cells index df =
     (if index
      then (XBlank # map XText (columns df))
           # map (\<lambda>(i, r). XNumber (of_nat i) # map xl_of_cell r)
               (zip [0..<length (rows df)] (rows df))
      else map XText (columns df) # map (map xl_of_cell) (rows df))"

text \<open>
  The spreadsheet engine refuses a title with one of the characters \<^verbatim>\<open>\ * ? : / [ ]\<close>.
\<close>

definition valid_title :: "string \<Rightarrow> bool" where
  "valid_title t = (\<forall>c \<in> set t. c \<notin> set [CHR 0x5C, CHR ''*'', CHR ''?'', CHR '':'', CHR ''/'', CHR ''['', CHR '']''])"

text \<open>
  The engine keeps the titles of a workbook different from each other without regard to
  case (its function \<^verbatim>\<open>avoid_duplicate_name\<close>): a new title that equals an existing one
  after \<^verbatim>\<open>str.lower()\<close> gets a number appended, one more than the highest number that follows
  an occurrence of the title (in any case) in the existing titles joined by commas.
  Python's \<^verbatim>\<open>str.lower\<close> is a parameter \<open>lower\<close> of the model, since the case mapping of
  Unicode is not reproduced here; on ASCII text it is \<open>ascii_lower_str\<close>.
\<close>

definition ascii_lower :: "char \<Rightarrow> char" where
  "ascii_lower c =
     (let k = of_char c :: nat in if 65 \<le> k \<and> k \<le> 90 then char_of (k + 32) else c)"

definition ascii_lower_str :: "string \<Rightarrow> string" where
  "ascii_lower_str s = map ascii_lower s"

definition is_digit :: "char \<Rightarrow> bool" where
  "is_digit c = (let k = of_char c :: nat in 48 \<le> k \<and> k \<le> 57)"

definition nat_of_digits :: "string \<Rightarrow> nat" where
  "nat_of_digits ds = foldl (\<lambda>a c. 10 * a + (of_char c - 48)) 0 ds"

function dec :: "nat \<Rightarrow> string" where
  "dec n = (if n < 10 then [char_of (48 + n)] else dec (n div 10) @ [char_of (48 + n mod 10)])"
  by pat_completeness auto
termination
  by (relation "measure id") auto

fun join_names :: "string list \<Rightarrow> string" where
  "join_names [] = []"
| "join_names [n] = n"
| "join_names (n # m # ns) = n @ '','' @ join_names (m # ns)"

definition skip_comma :: "string \<Rightarrow> string" where
  "skip_comma s = (case s of [] \<Rightarrow> [] | c # cs \<Rightarrow> if c = CHR '','' then cs else s)"

lemma length_skip_comma: "length (skip_comma s) \<le> length s"
  by (cases s) (simp_all add: skip_comma_def)

lemma length_after_title:
  assumes "value \<noteq> []" and "length value \<le> length s"
  shows "length (skip_comma (dropWhile is_digit (drop (length value) s))) < length s"
proof -
  have "length (skip_comma (dropWhile is_digit (drop (length value) s)))
          \<le> length (dropWhile is_digit (drop (length value) s))"
    by (rule length_skip_comma)
  also have "\<dots> \<le> length (drop (length value) s)"
    by (rule length_dropWhile_le)
  also have "\<dots> < length s"
    using assms by (cases "value") simp_all
  finally show ?thesis .
qed

text \<open>
  The numbers found by the engine's search for the title followed by digits and a comma,
  from left to right through the joined titles: one entry for each occurrence, the digits
  that follow it (none, for a title with no number).
\<close>

function title_counts :: "(string \<Rightarrow> string) \<Rightarrow> string \<Rightarrow> string \<Rightarrow> string list" where
  "title_counts lower value s =
     (if s = [] \<or> value = [] then []
      else if length value \<le> length s \<and> lower (take (length value) s) = lower value
      then takeWhile is_digit (drop (length value) s)
           # title_counts lower value (skip_comma (dropWhile is_digit (drop (length value) s)))
      else title_counts lower value (tl s))"
  by pat_completeness auto
termination
  by (relation "measure (\<lambda>(lower, value, s). length s)") (auto simp: length_after_title)

definition highest_count :: "string list \<Rightarrow> nat" where
  "highest_count ms = foldr max (map nat_of_digits (filter (\<lambda>d. d \<noteq> []) ms)) 0"

definition avoid_duplicate_name :: "(string \<Rightarrow> string) \<Rightarrow> string list \<Rightarrow> string \<Rightarrow> string" where
  "avoid_duplicate_name lower names value =
     (if lower value \<in> set (map lower names)
      then (case title_counts lower value (join_names names) of
              [] \<Rightarrow> value
            | m # ms \<Rightarrow> value @ dec (Suc (highest_count (m # ms))))
      else value)"

text \<open>
  \<^verbatim>\<open>df.to_excel(writer, sheet_name=..., index=False)\<close> in write mode. A sheet name that is,
  letter for letter, the title of a sheet of the workbook is not added again: the cells are
  written over that sheet, and the cells they do not cover stay. Otherwise the engine adds
  a sheet under its default title \<^verbatim>\<open>Sheet\<close>, made different from the existing titles, and
  the sheet is then given the name: a name with a reserved character raises \<^verbatim>\<open>ValueError\<close>
  and leaves the empty sheet behind; any other name is made different from the titles of
  the workbook and becomes the title. The new sheet comes last. The result is the
  workbook after the call and the exception, if one was raised.
\<close>

fun overlay_row :: "'a list \<Rightarrow> 'a list \<Rightarrow> 'a list" where
  "overlay_row [] old = old"
| "overlay_row new [] = new"
| "overlay_row (x # xs) (y # ys) = x # overlay_row xs ys"

fun overlay :: "sheet \<Rightarrow> sheet \<Rightarrow> sheet" where
  "overlay [] old = old"
| "overlay new [] = new"
| "overlay (r # rs) (q # qs) = overlay_row r q # overlay rs qs"

definition to_excel ::
    "(string \<Rightarrow> string) \<Rightarrow> workbook \<Rightarrow> cell frame \<Rightarrow> string \<Rightarrow> bool \<Rightarrow> workbook \<times> error option" where
  "to_excel lower book df sheet_name index =
     (case map_of book sheet_name of
        Some old \<Rightarrow>
          (map (\<lambda>(t, s). if t = sheet_name then (t, overlay (frame_cells index df) s) else (t, s)) book,
           None)
      | None \<Rightarrow>
          let default_title = avoid_duplicate_name lower (map fst book) ''Sheet''
          in if \<not> valid_title sheet_name
             then (book @ [(default_title, [])], Some ValueError)
             else let title = (if sheet_name = default_title then sheet_name
                               else avoid_duplicate_name lower (map fst book @ [default_title]) sheet_name)
                  in (book @ [(title, frame_cells index df)], None))"

subsection \<open>The export loop\<close>

text \<open>
  \<^verbatim>\<open>par.capitalize()\<close>: the first character in upper case, the others in lower case. Only
  the letters of ASCII are converted here; the parameters of the source are \<^verbatim>\<open>"p"\<close> and
  \<^verbatim>\<open>"n"\<close>.
\<close>

definition ascii_upper :: "char \<Rightarrow> char" where
  "ascii_upper c =
     (let k = of_char c :: nat in if 97 \<le> k \<and> k \<le> 122 then char_of (k - 32) else c)"

definition capitalize :: "string \<Rightarrow> string" where
  "capitalize s = (case s of [] \<Rightarrow> [] | c # cs \<Rightarrow> ascii_upper c # map ascii_lower cs)"

definition csv_path :: "string \<Rightarrow> string \<Rightarrow> string \<Rightarrow> string" where
  "csv_path dir region par = path_join dir (region @ ''_'' @ par @ ''.csv'')"

definition sheet_title :: "string \<Rightarrow> string \<Rightarrow> string" where
  "sheet_title region par = region @ '' ('' @ capitalize par @ '')''"

text \<open>
  The two loops. The first exception ends them; the result is the workbook at that moment
  and the exception, or the final workbook and no exception.
\<close>

fun export_pars ::
    "(string \<Rightarrow> string) \<Rightarrow> store \<Rightarrow> string \<Rightarrow> string \<Rightarrow> string list \<Rightarrow> workbook
       \<Rightarrow> workbook \<times> error option" where
  "export_pars lower fs dir region [] book = (book, None)"
| "export_pars lower fs dir region (par # ps) book =
     (case read_csv fs (csv_path dir region par) of
        Inl e \<Rightarrow> (book, Some e)
      | Inr df \<Rightarrow>
     (case to_excel lower book df (sheet_title region par) False of
        (book', Some e) \<Rightarrow> (book', Some e)
      | (book', None) \<Rightarrow> export_pars lower fs dir region ps book'))"

fun export_regions ::
    "(string \<Rightarrow> string) \<Rightarrow> store \<Rightarrow> string \<Rightarrow> string list \<Rightarrow> string list \<Rightarrow> workbook
       \<Rightarrow> workbook \<times> error option" where
  "export_regions lower fs dir [] ps book = (book, None)"
| "export_regions lower fs dir (region # rs) ps book =
     (case export_pars lower fs dir region ps book of
        (book', Some e) \<Rightarrow> (book', Some e)
      | (book', None) \<Rightarrow> export_regions lower fs dir rs ps book')"

text \<open>
  \<^verbatim>\<open>with pd.ExcelWriter(xl_path, engine="openpyxl") as writer\<close>: the file is opened for
  writing first (\<^verbatim>\<open>OSError\<close> when its directory does not exist), the workbook starts
  without a sheet, and leaving the block saves it, also when the block raised. A workbook
  without a sheet cannot be saved: the save raises \<^verbatim>\<open>IndexError\<close>, which then is the
  exception of the run. Otherwise the workbook is saved as it is, and the exception of
  the block, if any, is the exception of the run.
\<close>

record xl_result =
  raised :: "error option"
  saved :: "workbook option"

definition tables_to_excel ::
    "(string \<Rightarrow> string) \<Rightarrow> store \<Rightarrow> string \<Rightarrow> string \<Rightarrow> string list \<Rightarrow> string list \<Rightarrow> xl_result" where
  "tables_to_excel lower fs path dir rs ps =
     (if \<not> writable fs path then \<lparr>raised = Some (OSError (parent_dir path)), saved = None\<rparr>
      else case export_regions lower fs dir rs ps [] of
             (book, exc) \<Rightarrow>
               if book = [] then \<lparr>raised = Some IndexError, saved = None\<rparr>
               else \<lparr>raised = exc, saved = Some book\<rparr>)"

section \<open>Properties of the reconciler\<close>

subsection \<open>Well-formed tables\<close>

text \<open>
  A table parsed by \<^verbatim>\<open>pd.read_csv\<close> is rectangular: every row has one cell per label. It
  has no missing value when no field of the file was empty. \<open>rounds_to c n\<close> says that
  the cell \<open>c\<close> is a number and \<open>n\<close> the \<^verbatim>\<open>int64\<close> it is rounded and converted to. \<open>legacy_part\<close> is the
  legacy table as it enters the concatenation: cut to the window, then renamed.
\<close>

definition rectangular :: "'a frame \<Rightarrow> bool" where
  "rectangular df = list_all (\<lambda>r. length r = length (columns df)) (rows df)"

definition no_missing :: "cell frame \<Rightarrow> bool" where
  "no_missing df = list_all (\<lambda>r. NaN \<notin> set r) (rows df)"

definition rounds_to :: "cell \<Rightarrow> int \<Rightarrow> bool" where
  "rounds_to c n = (case c of Num x \<Rightarrow> n = to_int64 (rint x) | NaN \<Rightarrow> False)"



definition legacy_part :: "int \<Rightarrow> int \<Rightarrow> cell frame \<Rightarrow> cell frame" where
  "legacy_part st en df = rename_df legacy_renames (df\<lparr>rows := windowed st en df\<rparr>)"

subsection \<open>Rounding and integer conversion\<close>

lemma those_map_Some:
  "those (map f xs) = Some ys \<longleftrightarrow> list_all2 (\<lambda>x y. f x = Some y) xs ys"
proof (induction xs arbitrary: ys)
  case Nil
  then show ?case by auto
next
  case (Cons x xs)
  then show ?case
    by (cases ys) (auto split: option.splits)
qed

lemma those_map_None: "those (map f xs) = None \<longleftrightarrow> (\<exists>x \<in> set xs. f x = None)"
  by (induction xs) (auto split: option.splits)

lemma rint_of_int: "rint (of_int n) = n"
  by (simp add: rint_def)

lemma astype_round_cell: "astype_int_cell (round_cell c) = Some n \<longleftrightarrow> rounds_to c n"
  by (cases c) (auto simp: rounds_to_def rint_of_int)

lemma astype_round_cell_None: "astype_int_cell (round_cell c) = None \<longleftrightarrow> c = NaN"
  by (cases c) auto

lemma astype_round_row_Some:
  "those (map astype_int_cell (map round_cell r)) = Some ns \<longleftrightarrow> list_all2 rounds_to r ns"
proof -
  have "(\<lambda>c n. (astype_int_cell \<circ> round_cell) c = Some n) = rounds_to"
    by (simp add: fun_eq_iff astype_round_cell)
  then show ?thesis
    by (simp add: those_map_Some)
qed

lemma astype_round_row_None:
  "those (map astype_int_cell (map round_cell r)) = None \<longleftrightarrow> NaN \<in> set r"
  by (auto simp: those_map_None astype_round_cell_None)

lemma astype_round_rows_Some:
  "those (map (\<lambda>r. those (map astype_int_cell r)) (map (map round_cell) rs)) = Some out
     \<longleftrightarrow> list_all2 (list_all2 rounds_to) rs out"
proof -
  have "(\<lambda>r ns. ((\<lambda>r. those (map astype_int_cell r)) \<circ> map round_cell) r = Some ns)
          = list_all2 rounds_to"
    using astype_round_row_Some by (simp add: fun_eq_iff)
  then show ?thesis
    by (simp add: those_map_Some)
qed

lemma astype_round_rows_None:
  "those (map (\<lambda>r. those (map astype_int_cell r)) (map (map round_cell) rs)) = None
     \<longleftrightarrow> (\<exists>r \<in> set rs. NaN \<in> set r)"
  using astype_round_row_None by (simp add: those_map_None)

lemma astype_round_Inr:
  "astype_int (round_df m) = Inr out \<longleftrightarrow>
     columns out = columns m \<and> list_all2 (list_all2 rounds_to) (rows m) (rows out)"
proof (cases "those (map (\<lambda>r. those (map astype_int_cell r)) (map (map round_cell) (rows m)))")
  case None
  then show ?thesis
    using astype_round_rows_Some [of "rows m" "rows out"]
    by (simp add: astype_int_def round_df_def)
next
  case (Some rs)
  then show ?thesis
    using astype_round_rows_Some [of "rows m"]
    by (cases out) (auto simp: astype_int_def round_df_def)
qed

lemma astype_round_Inl:
  "astype_int (round_df m) = Inl e \<longleftrightarrow>
     e = ValueError \<and> (\<exists>r \<in> set (rows m). NaN \<in> set r)"
proof (cases "those (map (\<lambda>r. those (map astype_int_cell r)) (map (map round_cell) (rows m)))")
  case None
  then show ?thesis
    using astype_round_rows_None [of "rows m"]
    by (auto simp: astype_int_def round_df_def)
next
  case (Some rs)
  then show ?thesis
    using astype_round_rows_None [of "rows m"]
    by (auto simp: astype_int_def round_df_def)
qed

subsection \<open>Alignment of columns in the concatenation\<close>

lemma cell_at_absent: "c \<notin> set cols \<Longrightarrow> cell_at cols r c = NaN"
proof -
  assume "c \<notin> set cols"
  then have "c \<notin> fst ` set (zip cols r)"
    by (auto dest: set_zip_leftD)
  then have "map_of (zip cols r) c = None"
    by (simp add: map_of_eq_None_iff)
  then show ?thesis
    by (simp add: cell_at_def)
qed

lemma cell_at_present:
  assumes "length r = length cols" and "c \<in> set cols"
  shows "cell_at cols r c \<in> set r"
proof -
  from assms obtain v where v: "map_of (zip cols r) c = Some v"
    using map_of_zip_is_Some [of cols r c] by auto
  then have "(c, v) \<in> set (zip cols r)"
    by (rule map_of_SomeD)
  then have "v \<in> set r"
    by (rule set_zip_rightD)
  with v show ?thesis
    by (simp add: cell_at_def)
qed

lemma reindex_row_self:
  assumes "distinct cols" and "length r = length cols"
  shows "reindex_row cols cols r = r"
proof (rule nth_equalityI)
  show "length (reindex_row cols cols r) = length r"
    using assms by (simp add: reindex_row_def)
next
  fix i
  assume "i < length (reindex_row cols cols r)"
  then have i: "i < length cols"
    by (simp add: reindex_row_def)
  with assms have "map_of (zip cols r) (cols ! i) = Some (r ! i)"
    by (simp add: map_of_zip_nth)
  with i show "reindex_row cols cols r ! i = r ! i"
    by (simp add: reindex_row_def cell_at_def)
qed

lemma reindex_row_append:
  "reindex_row cols (t1 @ t2) r = reindex_row cols t1 r @ reindex_row cols t2 r"
  by (simp add: reindex_row_def)

lemma reindex_row_has_NaN:
  assumes "length r = length cols" and "NaN \<notin> set r"
  shows "NaN \<in> set (reindex_row cols target r) \<longleftrightarrow> \<not> set target \<subseteq> set cols"
proof
  assume "NaN \<in> set (reindex_row cols target r)"
  then obtain c where c: "c \<in> set target" "cell_at cols r c = NaN"
    by (auto simp: reindex_row_def)
  with assms have "c \<notin> set cols"
    using cell_at_present [of r cols c] by auto
  with c show "\<not> set target \<subseteq> set cols"
    by auto
next
  assume "\<not> set target \<subseteq> set cols"
  then obtain c where "c \<in> set target" "c \<notin> set cols"
    by auto
  then show "NaN \<in> set (reindex_row cols target r)"
    by (force simp: reindex_row_def cell_at_absent)
qed

lemma set_union_columns: "set (union_columns a b) = set a \<union> set b"
  by (auto simp: union_columns_def)

lemma concat_df_aligned:
  assumes "distinct (columns a)" "distinct (columns b)" "rectangular a" "rectangular b"
  shows "concat_df a b =
           Inr \<lparr>columns = union_columns (columns a) (columns b),
                rows = map (reindex_row (columns a) (union_columns (columns a) (columns b))) (rows a)
                     @ map (reindex_row (columns b) (union_columns (columns a) (columns b))) (rows b)\<rparr>"
proof (cases "columns a = columns b")
  case True
  then have u: "union_columns (columns a) (columns b) = columns a"
    by (simp add: union_columns_def)
  have "map (reindex_row (columns a) (columns a)) (rows a) = rows a"
    using assms(1,3) by (simp add: rectangular_def list_all_iff reindex_row_self map_idI)
  moreover have "map (reindex_row (columns b) (columns b)) (rows b) = rows b"
    using assms(2,4) by (simp add: rectangular_def list_all_iff reindex_row_self map_idI)
  ultimately show ?thesis
    using True u by (simp add: concat_df_def)
next
  case False
  with assms(1,2) show ?thesis
    by (simp add: concat_df_def Let_def)
qed

lemma concat_rows_have_NaN:
  assumes "rectangular a" "rectangular b" "no_missing a" "no_missing b"
  shows "(\<exists>r \<in> set (map (reindex_row (columns a) cols) (rows a)
                   @ map (reindex_row (columns b) cols) (rows b)). NaN \<in> set r)
         \<longleftrightarrow> (rows a \<noteq> [] \<and> \<not> set cols \<subseteq> set (columns a))
           \<or> (rows b \<noteq> [] \<and> \<not> set cols \<subseteq> set (columns b))"
proof -
  have a: "NaN \<in> set (reindex_row (columns a) cols r) \<longleftrightarrow> \<not> set cols \<subseteq> set (columns a)"
    if "r \<in> set (rows a)" for r
    using that assms(1,3) by (simp add: rectangular_def no_missing_def list_all_iff reindex_row_has_NaN)
  have b: "NaN \<in> set (reindex_row (columns b) cols r) \<longleftrightarrow> \<not> set cols \<subseteq> set (columns b)"
    if "r \<in> set (rows b)" for r
    using that assms(2,4) by (simp add: rectangular_def no_missing_def list_all_iff reindex_row_has_NaN)
  have "(\<exists>r \<in> set (rows a). NaN \<in> set (reindex_row (columns a) cols r))
          \<longleftrightarrow> rows a \<noteq> [] \<and> \<not> set cols \<subseteq> set (columns a)"
    using a by (cases "rows a") auto
  moreover have "(\<exists>r \<in> set (rows b). NaN \<in> set (reindex_row (columns b) cols r))
          \<longleftrightarrow> rows b \<noteq> [] \<and> \<not> set cols \<subseteq> set (columns b)"
    using b by (cases "rows b") auto
  ultimately show ?thesis
    by (auto simp: bex_Un)
qed

subsection \<open>One pass of the loop body\<close>

lemma columns_legacy_part [simp]:
  "columns (legacy_part st en df) = map (rename_label legacy_renames) (columns df)"
  by (simp add: legacy_part_def rename_df_def)

lemma rows_legacy_part [simp]: "rows (legacy_part st en df) = windowed st en df"
  by (simp add: legacy_part_def rename_df_def)

lemma rectangular_legacy_part: "rectangular df \<Longrightarrow> rectangular (legacy_part st en df)"
  by (simp add: rectangular_def windowed_def list_all_iff)

lemma no_missing_legacy_part: "no_missing df \<Longrightarrow> no_missing (legacy_part st en df)"
  by (simp add: no_missing_def windowed_def list_all_iff)

lemma merge_pair_read:
  assumes "files fs (path_join (cfg_old_fold cfg) old_fname) = Some old0"
    and "Aar \<in> set (columns old0)"
    and "files fs (path_join (cfg_new_fold cfg) new_fname) = Some new_df"
  shows "merge_pair cfg fs new_fname old_fname =
           (case merge_frames (legacy_part (cfg_old_st cfg) (cfg_old_end cfg) old0) new_df of
              Inl e \<Rightarrow> Inl e
            | Inr merge_df \<Rightarrow> to_csv fs (path_join (cfg_merge_fold cfg) new_fname) merge_df)"
  using assms by (simp add: merge_pair_def read_csv_def query_df_def legacy_part_def Let_def)

lemma merge_pair_Inr:
  assumes "merge_pair cfg fs new_fname old_fname = Inr fs'"
  shows "\<exists>old0 new_df merge_df.
           files fs (path_join (cfg_old_fold cfg) old_fname) = Some old0
         \<and> Aar \<in> set (columns old0)
         \<and> files fs (path_join (cfg_new_fold cfg) new_fname) = Some new_df
         \<and> merge_frames (legacy_part (cfg_old_st cfg) (cfg_old_end cfg) old0) new_df = Inr merge_df
         \<and> writable fs (path_join (cfg_merge_fold cfg) new_fname)
         \<and> fs' = fs\<lparr>files := (files fs)(path_join (cfg_merge_fold cfg) new_fname
                                        \<mapsto> csv_of_int_frame merge_df)\<rparr>"
  using assms
  by (auto simp: merge_pair_def read_csv_def query_df_def legacy_part_def to_csv_def Let_def
           split: option.splits sum.splits if_splits)

lemma merge_frames_aligned_Inr:
  assumes "distinct (columns a)" "distinct (columns b)" "rectangular a" "rectangular b"
  shows "merge_frames a b = Inr out \<longleftrightarrow>
           columns out = union_columns (columns a) (columns b)
         \<and> list_all2 (list_all2 rounds_to)
              (map (reindex_row (columns a) (union_columns (columns a) (columns b))) (rows a)
               @ map (reindex_row (columns b) (union_columns (columns a) (columns b))) (rows b))
              (rows out)"
  by (simp add: merge_frames_def concat_df_aligned [OF assms] astype_round_Inr)

lemma merge_frames_aligned_Inl:
  assumes "distinct (columns a)" "distinct (columns b)" "rectangular a" "rectangular b"
    and "no_missing a" "no_missing b"
  shows "merge_frames a b = Inl e \<longleftrightarrow>
           e = ValueError
         \<and> ((rows a \<noteq> [] \<and> \<not> set (columns b) \<subseteq> set (columns a))
            \<or> (rows b \<noteq> [] \<and> \<not> set (columns a) \<subseteq> set (columns b)))"
  using concat_rows_have_NaN [OF assms(3,4,5,6), of "union_columns (columns a) (columns b)"]
  by (simp add: merge_frames_def concat_df_aligned [OF assms(1-4)] astype_round_Inl
                set_union_columns)

subsection \<open>The mapping of the source\<close>

text \<open>
  The keys of \<^verbatim>\<open>fname_dict\<close> are pairwise different, so the list of its entries is the
  dictionary; it has one entry for each of the twenty regions and two parameters.
\<close>

lemma fname_dict_keys: "distinct (map fst fname_dict)" "length fname_dict = 40"
  by (simp_all add: fname_dict_def)

subsection \<open>Renaming\<close>

text \<open>
  Claim C5. The column-rename step maps the legacy label \<^verbatim>\<open>Befolkning\<close> to \<^verbatim>\<open>Avloep\<close> and the
  legacy label \<^verbatim>\<open>Bakgrun\<close> to \<^verbatim>\<open>Bakgrunn\<close>, and is the identity on every other label, for
  every list of columns; the rows are not touched.
\<close>

theorem rename_legacy_columns:
  "columns (rename_df legacy_renames df) =
     map (\<lambda>c. if c = Befolkning then Avloep else if c = Bakgrun then Bakgrunn else c) (columns df)
   \<and> rows (rename_df legacy_renames df) = rows df"
  by (simp add: rename_df_def rename_label_def legacy_renames_def)

subsection \<open>The scenario of the specification\<close>

text \<open>
  The legacy table of the merge scenario has the years 1990 to 2019 under the labels
  \<^verbatim>\<open>Aar\<close>, \<^verbatim>\<open>Bakgrun\<close>, \<^verbatim>\<open>Befolkning\<close>, \<^verbatim>\<open>Jordbruk\<close>; the current table has the years 2018 to 2020
  under \<^verbatim>\<open>Aar\<close>, \<^verbatim>\<open>Bakgrunn\<close>, \<^verbatim>\<open>Avloep\<close>, \<^verbatim>\<open>Jordbruk\<close>. The loads are arbitrary.
\<close>

definition legacy_example :: "cell frame" where
  "legacy_example =
     \<lparr>columns = [Aar, Bakgrun, Befolkning, ''Jordbruk''],
      rows = map (\<lambda>y. [Num (of_int y), Num 12, Num (7 / 2), Num (5 / 2)]) [1990..2019]\<rparr>"

definition current_example :: "cell frame" where
  "current_example =
     \<lparr>columns = [Aar, Bakgrunn, Avloep, ''Jordbruk''],
      rows = map (\<lambda>y. [Num (of_int y), Num (25 / 2), Num 4, Num (21 / 8)]) [2018..2020]\<rparr>"

subsection \<open>The historical window\<close>

lemma filter_upto_window:
  assumes "lo \<le> st" and "en \<le> hi"
  shows "filter (\<lambda>y. st \<le> y \<and> y \<le> en) [lo..hi] = [st..en]"
proof (rule sorted_distinct_set_unique)
  show "set (filter (\<lambda>y. st \<le> y \<and> y \<le> en) [lo..hi]) = set [st..en]"
    using assms by auto
qed (simp_all add: sorted_wrt_filter)

lemma in_window_iff:
  "in_window st en c \<longleftrightarrow> (\<exists>y. c = Num y \<and> of_int st \<le> y \<and> y \<le> of_int en)"
  by (cases c) (simp_all add: in_window_def)

lemma length_windowed_years:
  assumes "map (\<lambda>r. cell_at (columns df) r Aar) (rows df) = map (\<lambda>y. Num (of_int y)) [lo..hi]"
    and "lo \<le> st" and "en \<le> hi"
  shows "length (windowed st en df) = nat (en - st + 1)"
proof -
  have "length (windowed st en df)
          = length (filter (in_window st en) (map (\<lambda>r. cell_at (columns df) r Aar) (rows df)))"
    by (simp add: windowed_def filter_map o_def)
  also have "\<dots> = length (filter (\<lambda>y. st \<le> y \<and> y \<le> en) [lo..hi])"
    by (simp add: assms(1) filter_map o_def in_window_def)
  also have "\<dots> = nat (en - st + 1)"
    by (simp add: filter_upto_window [OF assms(2,3)])
  finally show ?thesis .
qed

lemma year_column_legacy_example:
  "map (\<lambda>r. cell_at (columns legacy_example) r Aar) (rows legacy_example)
     = map (\<lambda>y. Num (of_int y)) [1990..2019]"
  by (simp add: legacy_example_def cell_at_def o_def)

text \<open>
  Claim C4. For every legacy table with a year column and every window \<open>[st, en]\<close>, the
  query keeps exactly the rows whose year \<open>y\<close> satisfies \<open>st \<le> y \<le> en\<close>, both ends
  included, in their order, and drops every other row (also a row with no year); the
  labels stay. When the years of the table are the integers from \<open>lo\<close> to \<open>hi\<close>, one row
  each, and the window lies inside, \<open>en - st + 1\<close> rows are kept: 28 for the window 1990 to
  2017 and the years 1990 to 2019.
\<close>

theorem query_keeps_window:
  assumes "Aar \<in> set (columns df)"
  shows "\<exists>out. query_df st en df = Inr out
          \<and> columns out = columns df
          \<and> rows out = filter (\<lambda>r. \<exists>y. cell_at (columns df) r Aar = Num y
                                     \<and> of_int st \<le> y \<and> y \<le> of_int en) (rows df)
          \<and> (map (\<lambda>r. cell_at (columns df) r Aar) (rows df) = map (\<lambda>y. Num (of_int y)) [lo..hi]
               \<and> lo \<le> st \<and> en \<le> hi
              \<longrightarrow> length (rows out) = nat (en - st + 1))"
  using assms length_windowed_years [of df lo hi st en]
  by (simp add: query_df_def in_window_iff) (simp add: windowed_def in_window_iff)

theorem query_keeps_window_witness:
  "\<exists>out. query_df old_st old_end legacy_example = Inr out
      \<and> columns out = [Aar, Bakgrun, Befolkning, ''Jordbruk'']
      \<and> length (rows legacy_example) = 30
      \<and> length (rows out) = 28"
proof -
  have "Aar \<in> set (columns legacy_example)"
    by (simp add: legacy_example_def)
  from query_keeps_window [OF this, of 1990 2017 1990 2019] year_column_legacy_example
  show ?thesis
    by (auto simp: legacy_example_def old_st_def old_end_def)
qed

subsection \<open>The table that is written\<close>

text \<open>
  \<open>merged_table a b\<close> is the file a successful pass writes for the windowed and renamed
  legacy table \<open>a\<close> and the current table \<open>b\<close>: the labels of \<open>a\<close>, then the labels only
  \<open>b\<close> has; the rows of \<open>a\<close>, then the rows of \<open>b\<close>, each realigned to these labels,
  rounded and converted. \<open>normalise_cell\<close> is \<^verbatim>\<open>.round(0).astype(int)\<close> on one number, read
  back from the file.
\<close>

fun normalise_cell :: "cell \<Rightarrow> cell" where
  "normalise_cell (Num x) = Num (of_int (to_int64 (rint x)))"
| "normalise_cell NaN = NaN"

definition merged_table :: "cell frame \<Rightarrow> cell frame \<Rightarrow> cell frame" where
  "merged_table a b =
     (let cols = union_columns (columns a) (columns b)
      in \<lparr>columns = cols,
          rows = map (\<lambda>r. map normalise_cell (reindex_row (columns a) cols r)) (rows a)
               @ map (\<lambda>r. map normalise_cell (reindex_row (columns b) cols r)) (rows b)\<rparr>)"

lemma rounds_to_normalise_cell: "rounds_to c n \<Longrightarrow> Num (of_int n) = normalise_cell c"
  by (cases c) (simp_all add: rounds_to_def)

lemma rounded_row: "list_all2 rounds_to r ns \<Longrightarrow> map (\<lambda>n. Num (of_int n)) ns = map normalise_cell r"
  by (induction rule: list_all2_induct) (simp_all add: rounds_to_normalise_cell)

lemma rounded_rows:
  "list_all2 (list_all2 rounds_to) rs out
     \<Longrightarrow> map (map (\<lambda>n. Num (of_int n))) out = map (map normalise_cell) rs"
  by (induction rule: list_all2_induct) (simp_all add: rounded_row)

lemma merge_frames_merged_table:
  assumes "distinct (columns a)" "distinct (columns b)" "rectangular a" "rectangular b"
    and "merge_frames a b = Inr out"
  shows "csv_of_int_frame out = merged_table a b"
proof -
  from assms have c: "columns out = union_columns (columns a) (columns b)"
    and r: "list_all2 (list_all2 rounds_to)
              (map (reindex_row (columns a) (union_columns (columns a) (columns b))) (rows a)
               @ map (reindex_row (columns b) (union_columns (columns a) (columns b))) (rows b))
              (rows out)"
    by (simp_all add: merge_frames_aligned_Inr)
  from rounded_rows [OF r] c show ?thesis
    by (simp add: csv_of_int_frame_def merged_table_def Let_def o_def)
qed

lemma merge_pair_output:
  assumes "files fs (path_join (cfg_old_fold cfg) old_fname) = Some old0"
    and "files fs (path_join (cfg_new_fold cfg) new_fname) = Some new_df"
    and "rectangular old0" "rectangular new_df"
    and "distinct (columns (legacy_part (cfg_old_st cfg) (cfg_old_end cfg) old0))"
    and "distinct (columns new_df)"
    and "merge_pair cfg fs new_fname old_fname = Inr fs'"
  shows "fs' = fs\<lparr>files := (files fs)(path_join (cfg_merge_fold cfg) new_fname \<mapsto>
                  merged_table (legacy_part (cfg_old_st cfg) (cfg_old_end cfg) old0) new_df)\<rparr>"
proof -
  from merge_pair_Inr [OF assms(7)] assms(1,2) obtain merge_df where
    m: "merge_frames (legacy_part (cfg_old_st cfg) (cfg_old_end cfg) old0) new_df = Inr merge_df"
    and f: "fs' = fs\<lparr>files := (files fs)(path_join (cfg_merge_fold cfg) new_fname
                                        \<mapsto> csv_of_int_frame merge_df)\<rparr>"
    by auto
  from merge_frames_merged_table [OF assms(5,6) rectangular_legacy_part [OF assms(3)] assms(4) m] f
  show ?thesis
    by simp
qed

lemma merge_pair_succeeds:
  assumes "files fs (path_join (cfg_old_fold cfg) old_fname) = Some old0"
    and "files fs (path_join (cfg_new_fold cfg) new_fname) = Some new_df"
    and "Aar \<in> set (columns old0)"
    and "rectangular old0" "rectangular new_df"
    and "no_missing old0" "no_missing new_df"
    and "distinct (columns (legacy_part (cfg_old_st cfg) (cfg_old_end cfg) old0))"
    and "distinct (columns new_df)"
    and "set (columns (legacy_part (cfg_old_st cfg) (cfg_old_end cfg) old0)) = set (columns new_df)"
    and "writable fs (path_join (cfg_merge_fold cfg) new_fname)"
  shows "\<exists>fs'. merge_pair cfg fs new_fname old_fname = Inr fs'"
proof -
  let ?old = "legacy_part (cfg_old_st cfg) (cfg_old_end cfg) old0"
  have "merge_frames ?old new_df \<noteq> Inl e" for e
    using merge_frames_aligned_Inl [OF assms(8,9) rectangular_legacy_part [OF assms(4)] assms(5)
        no_missing_legacy_part [OF assms(6)] assms(7), of e] assms(10)
    by simp
  then obtain out where "merge_frames ?old new_df = Inr out"
    by (cases "merge_frames ?old new_df") auto
  with assms(11) show ?thesis
    by (simp add: merge_pair_read [OF assms(1,3,2)] to_csv_def)
qed

subsection \<open>Evaluating the scenario\<close>

text \<open>The store of the scenario holds the two example tables for \<^verbatim>\<open>Glomma_p.csv\<close>.\<close>

definition example_store :: store where
  "example_store =
     \<lparr>files = [path_join old_fold ''Glomma_p.csv'' \<mapsto> legacy_example,
               path_join new_fold ''Glomma_p.csv'' \<mapsto> current_example],
      writable = (\<lambda>path. True)\<rparr>"

lemma label_simps:
  "Aar \<noteq> Avloep" "Aar \<noteq> Bakgrunn" "Aar \<noteq> Befolkning" "Aar \<noteq> Bakgrun"
  "Avloep \<noteq> Aar" "Bakgrunn \<noteq> Aar" "Befolkning \<noteq> Aar" "Bakgrun \<noteq> Aar"
  "rename_label legacy_renames Aar = Aar"
  "rename_label legacy_renames Befolkning = Avloep"
  "rename_label legacy_renames Bakgrun = Bakgrunn"
  "rename_label legacy_renames Bakgrunn = Bakgrunn"
  "rename_label legacy_renames Avloep = Avloep"
  "rename_label legacy_renames ''Jordbruk'' = ''Jordbruk''"
  by (simp_all add: rename_label_def legacy_renames_def Aar_def Avloep_def Bakgrunn_def
        Befolkning_def Bakgrun_def)

lemma rint_numeral: "rint (numeral k) = numeral k"
  using rint_of_int [of "numeral k"] by simp

lemma example_paths:
  "path_join old_fold ''Glomma_p.csv'' = ''../report_2020/jose_data/Glomma_p.csv''"
  "path_join new_fold ''Glomma_p.csv'' = ''../report_2020/data/Glomma_p.csv''"
  "path_join merge_fold ''Glomma_p.csv'' = ''../report_2020/jose_data_updated_2018-20/Glomma_p.csv''"
  by (simp_all add: path_join_def old_fold_def new_fold_def merge_fold_def)

lemma example_store_files:
  "files example_store (path_join old_fold ''Glomma_p.csv'') = Some legacy_example"
  "files example_store (path_join new_fold ''Glomma_p.csv'') = Some current_example"
  by (simp_all add: example_store_def example_paths)

lemma example_tables_valid:
  "Aar \<in> set (columns legacy_example)"
  "rectangular legacy_example" "rectangular current_example"
  "no_missing legacy_example" "no_missing current_example"
  "distinct (map (rename_label legacy_renames) (columns legacy_example))"
  "distinct (columns current_example)"
  "set (map (rename_label legacy_renames) (columns legacy_example)) = set (columns current_example)"
  by (simp_all add: legacy_example_def current_example_def rectangular_def no_missing_def
        list_all_iff label_simps)
    (simp_all add: Aar_def Avloep_def Bakgrunn_def)


text \<open>The definitions that evaluate one pass of the loop on a given store.\<close>

lemmas merge_eval =
  merge_pair_def read_csv_def query_df_def windowed_def in_window_def cell_at_def
  rename_df_def merge_frames_def concat_df_def union_columns_def reindex_row_def
  round_df_def astype_int_def to_csv_def csv_of_int_frame_def source_config_def
  old_st_def old_end_def Let_def rint_numeral to_int64_def label_simps

subsection \<open>Row count of the merge\<close>

text \<open>
  Claim C3. For every valid pair of a legacy and a current table (both files present, a
  year column in the legacy table, rectangular tables without missing values, the same
  set of pairwise different labels after renaming, an output path that can be written),
  the pass succeeds and writes exactly one file, whose number of rows is the number of
  legacy rows with a year inside the window plus the number of rows of the current
  table: no row is added, dropped or merged with another. Disjoint year coverage is not
  needed for this.
\<close>

theorem merged_row_count:
  assumes "files fs (path_join (cfg_old_fold cfg) old_fname) = Some old0"
    and "files fs (path_join (cfg_new_fold cfg) new_fname) = Some new_df"
    and "Aar \<in> set (columns old0)"
    and "rectangular old0" and "rectangular new_df"
    and "no_missing old0" and "no_missing new_df"
    and "distinct (map (rename_label legacy_renames) (columns old0))"
    and "distinct (columns new_df)"
    and "set (map (rename_label legacy_renames) (columns old0)) = set (columns new_df)"
    and "writable fs (path_join (cfg_merge_fold cfg) new_fname)"
  shows "\<exists>merged.
           merge_pair cfg fs new_fname old_fname
             = Inr (fs\<lparr>files := (files fs)(path_join (cfg_merge_fold cfg) new_fname \<mapsto> merged)\<rparr>)
         \<and> length (rows merged)
             = length (filter (\<lambda>r. in_window (cfg_old_st cfg) (cfg_old_end cfg)
                                   (cell_at (columns old0) r Aar)) (rows old0))
               + length (rows new_df)"
proof -
  let ?old = "legacy_part (cfg_old_st cfg) (cfg_old_end cfg) old0"
  have d: "distinct (columns ?old)" and s: "set (columns ?old) = set (columns new_df)"
    using assms(8,10) by simp_all
  from merge_pair_succeeds [OF assms(1-7) d assms(9) s assms(11)]
  obtain fs' where ok: "merge_pair cfg fs new_fname old_fname = Inr fs'" ..
  from merge_pair_output [OF assms(1,2,4,5) d assms(9) ok]
  have "fs' = fs\<lparr>files := (files fs)(path_join (cfg_merge_fold cfg) new_fname \<mapsto>
                  merged_table ?old new_df)\<rparr>" .
  moreover have "length (rows (merged_table ?old new_df))
                   = length (windowed (cfg_old_st cfg) (cfg_old_end cfg) old0) + length (rows new_df)"
    by (simp add: merged_table_def Let_def)
  ultimately show ?thesis
    using ok by (auto simp: windowed_def)
qed

theorem merged_row_count_witness:
  "\<exists>merged.
      merge_pair source_config example_store ''Glomma_p.csv'' ''Glomma_p.csv''
        = Inr (example_store\<lparr>files := (files example_store)
                 (''../report_2020/jose_data_updated_2018-20/Glomma_p.csv'' \<mapsto> merged)\<rparr>)
    \<and> length (rows merged) = 31"
proof -
  have w: "length (windowed 1990 2017 legacy_example) = 28"
    using length_windowed_years [OF year_column_legacy_example, of 1990 2017] by simp
  have "writable example_store (path_join merge_fold ''Glomma_p.csv'')"
    by (simp add: example_store_def)
  from merged_row_count [of example_store source_config "''Glomma_p.csv''" legacy_example
      "''Glomma_p.csv''" current_example]
    example_store_files example_tables_valid this
  show ?thesis
    using w by (simp add: source_config_def example_paths windowed_def old_st_def old_end_def
        current_example_def)
qed

subsection \<open>Order of the rows\<close>





text \<open>
  A legacy table and a current table whose years are not ascending, and whose labels come
  in different orders.
\<close>

definition unsorted_legacy :: "cell frame" where
  "unsorted_legacy =
     \<lparr>columns = [Aar, Bakgrun],
      rows = [[Num 1995, Num (3 / 2)], [Num 1991, Num (7 / 2)], [Num 2018, Num 5]]\<rparr>"

definition unsorted_current :: "cell frame" where
  "unsorted_current =
     \<lparr>columns = [Bakgrunn, Aar],
      rows = [[Num 7, Num 2020], [Num 8, Num 2019]]\<rparr>"

definition unsorted_store :: store where
  "unsorted_store =
     \<lparr>files = [path_join old_fold ''Agder_n.csv'' \<mapsto> unsorted_legacy,
               path_join new_fold ''Agder_n.csv'' \<mapsto> unsorted_current],
      writable = (\<lambda>path. True)\<rparr>"

lemma agder_paths:
  "path_join old_fold ''Agder_n.csv'' = ''../report_2020/jose_data/Agder_n.csv''"
  "path_join new_fold ''Agder_n.csv'' = ''../report_2020/data/Agder_n.csv''"
  "path_join merge_fold ''Agder_n.csv'' = ''../report_2020/jose_data_updated_2018-20/Agder_n.csv''"
  by (simp_all add: path_join_def old_fold_def new_fold_def merge_fold_def)








subsection \<open>Numeric normalisation\<close>


















lemma example_merge_succeeds:
  "\<exists>fs'. merge_pair source_config example_store ''Glomma_p.csv'' ''Glomma_p.csv'' = Inr fs'"
proof -
  have "writable example_store (path_join (cfg_merge_fold source_config) ''Glomma_p.csv'')"
    by (simp add: example_store_def)
  then show ?thesis
    using example_store_files example_tables_valid
    by (intro merge_pair_succeeds [of _ _ _ legacy_example _ current_example])
      (simp_all add: source_config_def)
qed





subsection \<open>Column sets that differ\<close>


lemma union_columns_subset: "set b \<subseteq> set a \<Longrightarrow> union_columns a b = a"
  by (simp add: union_columns_def filter_empty_conv subset_iff)

text \<open>
  Example tables: a legacy table with no year inside the window and a current table with
  one more column; a legacy table with one more column and a current file that has only
  its header line; a current table with a column the legacy table of \<open>unsorted_store\<close> does
  not have.
\<close>

definition late_legacy :: "cell frame" where
  "late_legacy = \<lparr>columns = [Aar], rows = [[Num 2018], [Num 2019]]\<rparr>"

definition wide_current :: "cell frame" where
  "wide_current = \<lparr>columns = [Aar, ''Jordbruk''], rows = [[Num 2018, Num 5]]\<rparr>"

definition late_store :: store where
  "late_store =
     \<lparr>files = [path_join old_fold ''Troms_p.csv'' \<mapsto> late_legacy,
               path_join new_fold ''Troms_p.csv'' \<mapsto> wide_current],
      writable = (\<lambda>path. True)\<rparr>"




definition mismatch_current :: "cell frame" where
  "mismatch_current = \<lparr>columns = [Aar, ''Akvakultur''], rows = [[Num 2018, Num 1]]\<rparr>"

definition mismatch_store :: store where
  "mismatch_store =
     \<lparr>files = [path_join old_fold ''Rogaland_p.csv'' \<mapsto> unsorted_legacy,
               path_join new_fold ''Rogaland_p.csv'' \<mapsto> mismatch_current],
      writable = (\<lambda>path. True)\<rparr>"

lemma troms_paths:
  "path_join old_fold ''Troms_p.csv'' = ''../report_2020/jose_data/Troms_p.csv''"
  "path_join new_fold ''Troms_p.csv'' = ''../report_2020/data/Troms_p.csv''"
  "path_join merge_fold ''Troms_p.csv'' = ''../report_2020/jose_data_updated_2018-20/Troms_p.csv''"
  by (simp_all add: path_join_def old_fold_def new_fold_def merge_fold_def)


lemma rogaland_paths:
  "path_join old_fold ''Rogaland_p.csv'' = ''../report_2020/jose_data/Rogaland_p.csv''"
  "path_join new_fold ''Rogaland_p.csv'' = ''../report_2020/data/Rogaland_p.csv''"
  "path_join merge_fold ''Rogaland_p.csv'' = ''../report_2020/jose_data_updated_2018-20/Rogaland_p.csv''"
  by (simp_all add: path_join_def old_fold_def new_fold_def merge_fold_def)

lemma mismatch_store_files:
  "files mismatch_store (path_join (cfg_old_fold source_config) ''Rogaland_p.csv'') = Some unsorted_legacy"
  "files mismatch_store (path_join (cfg_new_fold source_config) ''Rogaland_p.csv'') = Some mismatch_current"
  by (simp_all add: mismatch_store_def source_config_def rogaland_paths)

lemma mismatch_tables:
  "Aar \<in> set (columns unsorted_legacy)"
  "rectangular unsorted_legacy" "rectangular mismatch_current"
  "no_missing unsorted_legacy" "no_missing mismatch_current"
  "distinct [Aar, Bakgrunn]"
  "distinct (columns mismatch_current)"
  "writable mismatch_store (path_join (cfg_merge_fold source_config) ''Rogaland_p.csv'')"
  "[Aar, Bakgrunn] = map (rename_label legacy_renames) (columns unsorted_legacy)"
  "[[Num 1995, Num (3 / 2)], [Num 1991, Num (7 / 2)]]
     = filter (\<lambda>r. in_window (cfg_old_st source_config) (cfg_old_end source_config)
                      (cell_at (columns unsorted_legacy) r Aar)) (rows unsorted_legacy)"
  "\<not> set (columns mismatch_current) \<subseteq> set [Aar, Bakgrunn]"
  by (simp_all add: unsorted_legacy_def mismatch_current_def mismatch_store_def rectangular_def
      no_missing_def label_simps source_config_def old_st_def old_end_def in_window_def cell_at_def)
    (simp_all add: Aar_def Bakgrunn_def)

text \<open>
  The column sets differ and the pass raises nothing: the legacy table has no row inside
  the window, so the column only the current table has is filled for every row.
\<close>

theorem differing_columns_without_error:
  "set (map (rename_label legacy_renames) (columns late_legacy)) \<noteq> set (columns wide_current)
   \<and> merge_pair source_config late_store ''Troms_p.csv'' ''Troms_p.csv''
       = Inr (late_store\<lparr>files := (files late_store)
                (''../report_2020/jose_data_updated_2018-20/Troms_p.csv''
                   \<mapsto> \<lparr>columns = [Aar, ''Jordbruk''], rows = [[Num 2018, Num 5]]\<rparr>)\<rparr>)"
proof
  show "set (map (rename_label legacy_renames) (columns late_legacy)) \<noteq> set (columns wide_current)"
    by (simp add: late_legacy_def wide_current_def label_simps Aar_def)
next
  show "merge_pair source_config late_store ''Troms_p.csv'' ''Troms_p.csv''
       = Inr (late_store\<lparr>files := (files late_store)
                (''../report_2020/jose_data_updated_2018-20/Troms_p.csv''
                   \<mapsto> \<lparr>columns = [Aar, ''Jordbruk''], rows = [[Num 2018, Num 5]]\<rparr>)\<rparr>)"
    by (simp add: merge_eval troms_paths late_store_def late_legacy_def wide_current_def)
      (simp add: Aar_def)
qed

text \<open>
  Claim C1, as the code has it. There is no check of the column sets and no
  \<^verbatim>\<open>SchemaMismatchError\<close>. For well-formed tables without missing values, the pass raises
  exactly when a table that lacks a column of the other one contributes at least one row
  (for the legacy table: a row inside the window); the exception is then a
  \<^verbatim>\<open>ValueError\<close> from the integer conversion (pandas' \<^verbatim>\<open>IntCastingNaNError\<close> or the built-in
  class itself, by the type of the column) and nothing is written. Otherwise the file is
  written with the legacy labels followed by the labels only the current table has. In
  particular tables with the same column set are merged whatever the order of the current
  table's columns, and the output has the order of the legacy table.
\<close>

theorem merge_fails_exactly_on_missing_cells:
  assumes "files fs (path_join (cfg_old_fold cfg) old_fname) = Some old0"
    and "files fs (path_join (cfg_new_fold cfg) new_fname) = Some new_df"
    and "Aar \<in> set (columns old0)"
    and "rectangular old0" and "rectangular new_df"
    and "no_missing old0" and "no_missing new_df"
    and "distinct lcols" and "distinct (columns new_df)"
    and "writable fs (path_join (cfg_merge_fold cfg) new_fname)"
    and "lcols = map (rename_label legacy_renames) (columns old0)"
    and "kept = filter (\<lambda>r. in_window (cfg_old_st cfg) (cfg_old_end cfg)
                               (cell_at (columns old0) r Aar)) (rows old0)"
  shows "(if (kept \<noteq> [] \<and> \<not> set (columns new_df) \<subseteq> set lcols)
             \<or> (rows new_df \<noteq> [] \<and> \<not> set lcols \<subseteq> set (columns new_df))
          then merge_pair cfg fs new_fname old_fname = Inl ValueError
          else \<exists>merged.
                 merge_pair cfg fs new_fname old_fname
                   = Inr (fs\<lparr>files := (files fs)(path_join (cfg_merge_fold cfg) new_fname \<mapsto> merged)\<rparr>)
               \<and> columns merged = union_columns lcols (columns new_df))
       \<and> (set lcols = set (columns new_df)
            \<longrightarrow> (\<exists>merged.
                   merge_pair cfg fs new_fname old_fname
                     = Inr (fs\<lparr>files := (files fs)(path_join (cfg_merge_fold cfg) new_fname \<mapsto> merged)\<rparr>)
                 \<and> columns merged = lcols))"
proof -
  let ?old = "legacy_part (cfg_old_st cfg) (cfg_old_end cfg) old0"
  let ?bad = "(kept \<noteq> [] \<and> \<not> set (columns new_df) \<subseteq> set lcols)
             \<or> (rows new_df \<noteq> [] \<and> \<not> set lcols \<subseteq> set (columns new_df))"
  have c: "columns ?old = lcols" and k: "rows ?old = kept"
    by (simp_all add: assms(11,12) windowed_def)
  have d: "distinct (columns ?old)"
    using assms(8) c by simp
  note inl = merge_frames_aligned_Inl [OF d assms(9) rectangular_legacy_part [OF assms(4)] assms(5)
      no_missing_legacy_part [OF assms(6)] assms(7), unfolded c k]
  note read = merge_pair_read [OF assms(1,3,2)]
  have bad: "merge_pair cfg fs new_fname old_fname = Inl ValueError" if ?bad
    using that inl [of ValueError] by (simp add: read)
  have good: "\<exists>merged.
                 merge_pair cfg fs new_fname old_fname
                   = Inr (fs\<lparr>files := (files fs)(path_join (cfg_merge_fold cfg) new_fname \<mapsto> merged)\<rparr>)
               \<and> columns merged = union_columns lcols (columns new_df)" if "\<not> ?bad"
  proof -
    from that inl have "merge_frames ?old new_df \<noteq> Inl e" for e
      by simp
    then obtain out where out: "merge_frames ?old new_df = Inr out"
      by (cases "merge_frames ?old new_df") auto
    then have "columns out = union_columns lcols (columns new_df)"
      using merge_frames_aligned_Inr [OF d assms(9) rectangular_legacy_part [OF assms(4)] assms(5), of out]
      by (simp add: assms(11))
    then have "columns (csv_of_int_frame out) = union_columns lcols (columns new_df)"
      by (simp add: csv_of_int_frame_def)
    with out assms(10) show ?thesis
      by (auto simp: read to_csv_def)
  qed
  have "\<not> ?bad" if "set lcols = set (columns new_df)"
    using that by simp
  with good union_columns_subset [of "columns new_df" lcols]
  have eq: "set lcols = set (columns new_df)
          \<longrightarrow> (\<exists>merged.
                 merge_pair cfg fs new_fname old_fname
                   = Inr (fs\<lparr>files := (files fs)(path_join (cfg_merge_fold cfg) new_fname \<mapsto> merged)\<rparr>)
               \<and> columns merged = lcols)"
    by auto
  show ?thesis
  proof (cases ?bad)
    case True
    show ?thesis
      unfolding if_P [OF True] using bad [OF True] eq by blast
  next
    case False
    show ?thesis
      unfolding if_not_P [OF False] using good [OF False] eq by blast
  qed
qed

theorem merge_fails_exactly_on_missing_cells_witness:
  "(\<exists>merged.
      merge_pair source_config unsorted_store ''Agder_n.csv'' ''Agder_n.csv''
        = Inr (unsorted_store\<lparr>files := (files unsorted_store)
                 (''../report_2020/jose_data_updated_2018-20/Agder_n.csv'' \<mapsto> merged)\<rparr>)
    \<and> columns merged = [Aar, Bakgrunn])
   \<and> columns unsorted_current = [Bakgrunn, Aar]
   \<and> merge_pair source_config mismatch_store ''Rogaland_p.csv'' ''Rogaland_p.csv''
        = Inl ValueError"
proof -
  have f: "files unsorted_store (path_join (cfg_old_fold source_config) ''Agder_n.csv'') = Some unsorted_legacy"
    "files unsorted_store (path_join (cfg_new_fold source_config) ''Agder_n.csv'') = Some unsorted_current"
    by (simp_all add: unsorted_store_def source_config_def agder_paths)
  have v: "Aar \<in> set (columns unsorted_legacy)"
    "rectangular unsorted_legacy" "rectangular unsorted_current"
    "no_missing unsorted_legacy" "no_missing unsorted_current"
    "distinct [Aar, Bakgrunn]"
    "distinct (columns unsorted_current)"
    "writable unsorted_store (path_join (cfg_merge_fold source_config) ''Agder_n.csv'')"
    "[Aar, Bakgrunn] = map (rename_label legacy_renames) (columns unsorted_legacy)"
    by (simp_all add: unsorted_legacy_def unsorted_current_def unsorted_store_def rectangular_def
        no_missing_def label_simps)
  have s: "set [Aar, Bakgrunn] = set (columns unsorted_current)"
    by (auto simp: unsorted_current_def)
  from merge_fails_exactly_on_missing_cells [OF f v refl] s
  have 1: "\<exists>merged.
      merge_pair source_config unsorted_store ''Agder_n.csv'' ''Agder_n.csv''
        = Inr (unsorted_store\<lparr>files := (files unsorted_store)
                 (''../report_2020/jose_data_updated_2018-20/Agder_n.csv'' \<mapsto> merged)\<rparr>)
    \<and> columns merged = [Aar, Bakgrunn]"
    by (simp add: source_config_def agder_paths)
  from merge_fails_exactly_on_missing_cells
    [OF mismatch_store_files mismatch_tables(1,2,3,4,5,6,7,8,9,10)] mismatch_tables(11)
  have 2: "merge_pair source_config mismatch_store ''Rogaland_p.csv'' ''Rogaland_p.csv''
        = Inl ValueError"
    by simp
  from 1 2 show ?thesis
    by (simp add: unsorted_current_def)
qed




subsection \<open>Missing input files\<close>

text \<open>A store with the legacy file of \<^verbatim>\<open>Glomma_n.csv\<close> and no current file for it.\<close>

definition legacy_only_store :: store where
  "legacy_only_store =
     \<lparr>files = [path_join old_fold ''Glomma_n.csv'' \<mapsto> legacy_example],
      writable = (\<lambda>path. True)\<rparr>"

lemma merge_pair_old_missing:
  assumes "files fs (path_join (cfg_old_fold cfg) old_fname) = None"
  shows "merge_pair cfg fs new_fname old_fname
           = Inl (FileNotFoundError (path_join (cfg_old_fold cfg) old_fname))"
  using assms by (simp add: merge_pair_def read_csv_def Let_def)

lemma merge_pair_new_missing:
  assumes "files fs (path_join (cfg_old_fold cfg) old_fname) = Some old0"
    and "Aar \<in> set (columns old0)"
    and "files fs (path_join (cfg_new_fold cfg) new_fname) = None"
  shows "merge_pair cfg fs new_fname old_fname
           = Inl (FileNotFoundError (path_join (cfg_new_fold cfg) new_fname))"
  using assms by (simp add: merge_pair_def read_csv_def query_df_def Let_def)

text \<open>A store whose legacy file for \<^verbatim>\<open>Troms_n.csv\<close> has no year column, and no current file.\<close>

definition no_year_legacy :: "cell frame" where
  "no_year_legacy = \<lparr>columns = [Bakgrun, ''Jordbruk''], rows = [[Num 1, Num 2]]\<rparr>"

definition no_year_store :: store where
  "no_year_store =
     \<lparr>files = [path_join old_fold ''Troms_n.csv'' \<mapsto> no_year_legacy],
      writable = (\<lambda>path. True)\<rparr>"

text \<open>
  The current file is absent and the exception is not \<^verbatim>\<open>FileNotFoundError\<close>: the query on
  the legacy table raises before the current file is read.
\<close>

theorem missing_current_file_other_error:
  "files no_year_store (path_join (cfg_new_fold source_config) ''Troms_n.csv'') = None
   \<and> merge_pair source_config no_year_store ''Troms_n.csv'' ''Troms_n.csv''
       = Inl (UndefinedVariableError Aar)"
  by (simp add: merge_pair_def read_csv_def query_df_def source_config_def path_join_def
      old_fold_def new_fold_def no_year_store_def no_year_legacy_def Let_def)
    (simp add: Aar_def Bakgrun_def)

text \<open>
  Claim C9, as the code has it. For every mapping entry, when the legacy file is absent
  the pass raises \<^verbatim>\<open>FileNotFoundError\<close> naming the legacy path; when the legacy file is there
  and its table has a year column, and the current file is absent, it raises
  \<^verbatim>\<open>FileNotFoundError\<close> naming the current path (a legacy table without a year column makes
  the query raise first). Whenever one of the two files is absent the pass raises, the
  loop stops and the store is as it was: no output file, partial or filled with zeros, is
  written for the pair, since the one write comes after both reads.
\<close>

theorem missing_input_stops_pair:
  "(files fs (path_join (cfg_old_fold cfg) old_fname) = None
      \<longrightarrow> merge_loop cfg fs ((new_fname, old_fname) # rest)
            = (fs, Some (FileNotFoundError (path_join (cfg_old_fold cfg) old_fname))))
   \<and> (files fs (path_join (cfg_old_fold cfg) old_fname) = Some old0
        \<and> Aar \<in> set (columns old0)
        \<and> files fs (path_join (cfg_new_fold cfg) new_fname) = None
      \<longrightarrow> merge_loop cfg fs ((new_fname, old_fname) # rest)
            = (fs, Some (FileNotFoundError (path_join (cfg_new_fold cfg) new_fname))))
   \<and> (files fs (path_join (cfg_old_fold cfg) old_fname) = None
        \<or> files fs (path_join (cfg_new_fold cfg) new_fname) = None
      \<longrightarrow> (\<exists>e. merge_pair cfg fs new_fname old_fname = Inl e
              \<and> merge_loop cfg fs ((new_fname, old_fname) # rest) = (fs, Some e)))"
proof (intro conjI impI)
  assume "files fs (path_join (cfg_old_fold cfg) old_fname) = None"
  then show "merge_loop cfg fs ((new_fname, old_fname) # rest)
            = (fs, Some (FileNotFoundError (path_join (cfg_old_fold cfg) old_fname)))"
    by (simp add: merge_pair_old_missing)
next
  assume "files fs (path_join (cfg_old_fold cfg) old_fname) = Some old0
        \<and> Aar \<in> set (columns old0)
        \<and> files fs (path_join (cfg_new_fold cfg) new_fname) = None"
  then show "merge_loop cfg fs ((new_fname, old_fname) # rest)
            = (fs, Some (FileNotFoundError (path_join (cfg_new_fold cfg) new_fname)))"
    by (simp add: merge_pair_new_missing)
next
  assume a: "files fs (path_join (cfg_old_fold cfg) old_fname) = None
        \<or> files fs (path_join (cfg_new_fold cfg) new_fname) = None"
  have "merge_pair cfg fs new_fname old_fname \<noteq> Inr fs'" for fs'
    using a merge_pair_Inr [of cfg fs new_fname old_fname fs'] by auto
  then obtain e where "merge_pair cfg fs new_fname old_fname = Inl e"
    by (cases "merge_pair cfg fs new_fname old_fname") auto
  then show "\<exists>e. merge_pair cfg fs new_fname old_fname = Inl e
              \<and> merge_loop cfg fs ((new_fname, old_fname) # rest) = (fs, Some e)"
    by simp
qed

theorem missing_input_stops_pair_witness:
  "merge_loop source_config example_store [(''Agder_p.csv'', ''Agder_p.csv'')]
     = (example_store, Some (FileNotFoundError ''../report_2020/jose_data/Agder_p.csv''))
   \<and> merge_loop source_config legacy_only_store [(''Glomma_n.csv'', ''Glomma_n.csv'')]
     = (legacy_only_store, Some (FileNotFoundError ''../report_2020/data/Glomma_n.csv''))"
proof -
  have p: "path_join old_fold ''Agder_p.csv'' = ''../report_2020/jose_data/Agder_p.csv''"
    "path_join old_fold ''Glomma_n.csv'' = ''../report_2020/jose_data/Glomma_n.csv''"
    "path_join new_fold ''Glomma_n.csv'' = ''../report_2020/data/Glomma_n.csv''"
    by (simp_all add: path_join_def old_fold_def new_fold_def)
  have 1: "files example_store (path_join (cfg_old_fold source_config) ''Agder_p.csv'') = None"
    by (simp add: source_config_def example_store_def p example_paths)
  have 2: "files legacy_only_store (path_join (cfg_old_fold source_config) ''Glomma_n.csv'') = Some legacy_example
        \<and> Aar \<in> set (columns legacy_example)
        \<and> files legacy_only_store (path_join (cfg_new_fold source_config) ''Glomma_n.csv'') = None"
    by (simp add: source_config_def legacy_only_store_def p legacy_example_def)
  from missing_input_stops_pair [of example_store source_config "''Agder_p.csv''" "''Agder_p.csv''" "[]"] 1
    missing_input_stops_pair [of legacy_only_store source_config "''Glomma_n.csv''" "''Glomma_n.csv''" "[]"
      legacy_example] 2
  show ?thesis
    by (simp add: source_config_def p)
qed

subsection \<open>The batch\<close>

text \<open>\<open>out_paths cfg entries\<close>: the output paths of the entries, in order.\<close>

definition out_paths :: "config \<Rightarrow> (string \<times> string) list \<Rightarrow> string list" where
  "out_paths cfg entries = map (\<lambda>(new_fname, old_fname). path_join (cfg_merge_fold cfg) new_fname) entries"

lemma merge_loop_append:
  "merge_loop cfg fs (xs @ ys) =
     (case merge_loop cfg fs xs of
        (fs1, None) \<Rightarrow> merge_loop cfg fs1 ys
      | (fs1, Some e) \<Rightarrow> (fs1, Some e))"
proof (induction xs arbitrary: fs)
  case Nil
  then show ?case by simp
next
  case (Cons x xs)
  then show ?case
    by (cases x) (simp split: sum.splits)
qed

lemma merge_loop_outputs:
  assumes "merge_loop cfg fs pre = (fs1, None)"
  shows "(\<forall>p \<in> set (out_paths cfg pre). \<exists>m. files fs1 p = Some (csv_of_int_frame m))
       \<and> (\<forall>p. p \<notin> set (out_paths cfg pre) \<longrightarrow> files fs1 p = files fs p)
       \<and> writable fs1 = writable fs"
  using assms
proof (induction pre arbitrary: fs)
  case Nil
  then show ?case by (simp add: out_paths_def)
next
  case (Cons x pre)
  obtain n o' where x: "x = (n, o')"
    by (cases x)
  from Cons.prems x obtain fs' where
    ok: "merge_pair cfg fs n o' = Inr fs'" and rest: "merge_loop cfg fs' pre = (fs1, None)"
    by (auto split: sum.splits)
  from merge_pair_Inr [OF ok] obtain m where
    fs': "fs' = fs\<lparr>files := (files fs)(path_join (cfg_merge_fold cfg) n \<mapsto> csv_of_int_frame m)\<rparr>"
    by blast
  from Cons.IH [OF rest] have
    b: "\<forall>p \<in> set (out_paths cfg pre). \<exists>m. files fs1 p = Some (csv_of_int_frame m)"
    and c: "\<forall>p. p \<notin> set (out_paths cfg pre) \<longrightarrow> files fs1 p = files fs' p"
    and w: "writable fs1 = writable fs'"
    by simp_all
  have "\<exists>m. files fs1 (path_join (cfg_merge_fold cfg) n) = Some (csv_of_int_frame m)"
  proof (cases "path_join (cfg_merge_fold cfg) n \<in> set (out_paths cfg pre)")
    case True
    with b show ?thesis by blast
  next
    case False
    with c fs' show ?thesis by auto
  qed
  with b c w fs' x show ?case
    by (auto simp: out_paths_def)
qed

text \<open>
  Claim C10. The loop takes the entries in the order of the mapping, and a pass that
  succeeds writes exactly one file, the output file of its entry. When the entries before
  some entry have all succeeded and that entry raises, the run ends there with that
  exception: the store is the one the earlier entries left, with the output file of each of
  them in place and no other file changed, and the entries after it play no part in the
  result.
\<close>

theorem loop_stops_at_first_error:
  assumes "merge_loop cfg fs pre = (fs1, None)"
    and "merge_pair cfg fs1 new_fname old_fname = Inl e"
  shows "merge_loop cfg fs (pre @ (new_fname, old_fname) # post) = (fs1, Some e)
       \<and> (\<forall>p \<in> set (out_paths cfg pre). \<exists>m. files fs1 p = Some (csv_of_int_frame m))
       \<and> (\<forall>p. p \<notin> set (out_paths cfg pre) \<longrightarrow> files fs1 p = files fs p)
       \<and> (\<forall>fs2 fs3 n' o'. merge_pair cfg fs2 n' o' = Inr fs3
             \<longrightarrow> (\<exists>m. fs3 = fs2\<lparr>files := (files fs2)(path_join (cfg_merge_fold cfg) n'
                                                     \<mapsto> csv_of_int_frame m)\<rparr>))"
proof -
  have "\<exists>m. fs3 = fs2\<lparr>files := (files fs2)(path_join (cfg_merge_fold cfg) n' \<mapsto> csv_of_int_frame m)\<rparr>"
    if "merge_pair cfg fs2 n' o' = Inr fs3" for fs2 fs3 n' o'
    using merge_pair_Inr [OF that] by blast
  with merge_loop_outputs [OF assms(1)] assms show ?thesis
    by (simp add: merge_loop_append)
qed

theorem loop_stops_at_first_error_witness:
  "\<exists>fs1 m.
      merge_loop source_config example_store [(''Glomma_p.csv'', ''Glomma_p.csv'')] = (fs1, None)
    \<and> merge_loop source_config example_store
          [(''Glomma_p.csv'', ''Glomma_p.csv''), (''Agder_p.csv'', ''Agder_p.csv''),
           (''Troms_p.csv'', ''Troms_p.csv'')]
        = (fs1, Some (FileNotFoundError ''../report_2020/jose_data/Agder_p.csv''))
    \<and> files fs1 ''../report_2020/jose_data_updated_2018-20/Glomma_p.csv'' = Some (csv_of_int_frame m)
    \<and> files fs1 ''../report_2020/jose_data_updated_2018-20/Agder_p.csv'' = None
    \<and> files fs1 ''../report_2020/jose_data_updated_2018-20/Troms_p.csv'' = None"
proof -
  from example_merge_succeeds obtain fs1 where
    ok: "merge_pair source_config example_store ''Glomma_p.csv'' ''Glomma_p.csv'' = Inr fs1" ..
  then have pre: "merge_loop source_config example_store [(''Glomma_p.csv'', ''Glomma_p.csv'')] = (fs1, None)"
    by simp
  from merge_pair_Inr [OF ok] obtain m where
    fs1: "fs1 = example_store\<lparr>files := (files example_store)
            (path_join (cfg_merge_fold source_config) ''Glomma_p.csv'' \<mapsto> csv_of_int_frame m)\<rparr>"
    by blast
  have p: "path_join old_fold ''Agder_p.csv'' = ''../report_2020/jose_data/Agder_p.csv''"
    by (simp add: path_join_def old_fold_def)
  have "files fs1 (path_join (cfg_old_fold source_config) ''Agder_p.csv'') = None"
    by (simp add: fs1 source_config_def example_store_def p example_paths)
  then have bad: "merge_pair source_config fs1 ''Agder_p.csv'' ''Agder_p.csv''
                    = Inl (FileNotFoundError ''../report_2020/jose_data/Agder_p.csv'')"
    using merge_pair_old_missing [of fs1 source_config "''Agder_p.csv''" "''Agder_p.csv''"]
    by (simp add: source_config_def p)
  have o: "out_paths source_config [(''Glomma_p.csv'', ''Glomma_p.csv'')]
             = [''../report_2020/jose_data_updated_2018-20/Glomma_p.csv'']"
    by (simp add: out_paths_def source_config_def example_paths)
  from loop_stops_at_first_error [OF pre bad, of "[(''Troms_p.csv'', ''Troms_p.csv'')]"]
  have "merge_loop source_config example_store
          [(''Glomma_p.csv'', ''Glomma_p.csv''), (''Agder_p.csv'', ''Agder_p.csv''),
           (''Troms_p.csv'', ''Troms_p.csv'')]
        = (fs1, Some (FileNotFoundError ''../report_2020/jose_data/Agder_p.csv''))"
    and "\<exists>m. files fs1 ''../report_2020/jose_data_updated_2018-20/Glomma_p.csv'' = Some (csv_of_int_frame m)"
    and "files fs1 ''../report_2020/jose_data_updated_2018-20/Agder_p.csv''
           = files example_store ''../report_2020/jose_data_updated_2018-20/Agder_p.csv''"
    and "files fs1 ''../report_2020/jose_data_updated_2018-20/Troms_p.csv''
           = files example_store ''../report_2020/jose_data_updated_2018-20/Troms_p.csv''"
    by (simp_all add: o)
  with pre show ?thesis
    by (auto simp: example_store_def example_paths)
qed

section \<open>Properties of the exporter\<close>

text \<open>
  \<open>region_titles rs\<close>: the sheet titles of the regions, in the order of the loops.
  \<open>region_sheets tbl region\<close>: the two sheets of a region, phosphorus then nitrogen, for
  the tables \<open>tbl region par\<close> read from the CSV files; each sheet is the row of labels
  followed by the rows of the table, with no column in front of them.
\<close>

definition region_titles :: "string list \<Rightarrow> string list" where
  "region_titles rs = concat (map (\<lambda>r. [r @ '' (P)'', r @ '' (N)'']) rs)"

definition region_sheets :: "(string \<Rightarrow> string \<Rightarrow> cell frame) \<Rightarrow> string \<Rightarrow> workbook" where
  "region_sheets tbl region =
     [(region @ '' (P)'',
       map XText (columns (tbl region ''p'')) # map (map xl_of_cell) (rows (tbl region ''p''))),
      (region @ '' (N)'',
       map XText (columns (tbl region ''n'')) # map (map xl_of_cell) (rows (tbl region ''n'')))]"

text \<open>
  A table for each region and parameter, and two stores: one with the four CSV files of
  the regions Glomma and Agder, one with the four CSV files of two regions whose names
  differ only in the case of a letter.
\<close>

definition report_table :: "string \<Rightarrow> string \<Rightarrow> cell frame" where
  "report_table region par =
     \<lparr>columns = [Aar, ''Jordbruk''],
      rows = [[Num 2021, Num (if par = ''p'' then 3 else 40)],
              [Num 2022, Num (if par = ''p'' then 5 / 2 else 81 / 2)]]\<rparr>"

definition report_store :: store where
  "report_store =
     \<lparr>files = [csv_path data_fold ''Glomma'' ''p'' \<mapsto> report_table ''Glomma'' ''p'',
               csv_path data_fold ''Glomma'' ''n'' \<mapsto> report_table ''Glomma'' ''n'',
               csv_path data_fold ''Agder'' ''p'' \<mapsto> report_table ''Agder'' ''p'',
               csv_path data_fold ''Agder'' ''n'' \<mapsto> report_table ''Agder'' ''n''],
      writable = (\<lambda>path. True)\<rparr>"

definition case_store :: store where
  "case_store =
     \<lparr>files = [csv_path data_fold ''Glomma'' ''p'' \<mapsto> report_table ''Glomma'' ''p'',
               csv_path data_fold ''Glomma'' ''n'' \<mapsto> report_table ''Glomma'' ''n'',
               csv_path data_fold ''glomma'' ''p'' \<mapsto> report_table ''glomma'' ''p'',
               csv_path data_fold ''glomma'' ''n'' \<mapsto> report_table ''glomma'' ''n''],
      writable = (\<lambda>path. True)\<rparr>"

lemma capitalize_pars: "capitalize ''p'' = ''P''" "capitalize ''n'' = ''N''"
  by code_simp+

lemma sheet_title_pars:
  "sheet_title region ''p'' = region @ '' (P)''"
  "sheet_title region ''n'' = region @ '' (N)''"
  by (simp_all add: sheet_title_def capitalize_pars)

lemma valid_title_pars:
  "valid_title (region @ '' (P)'') \<longleftrightarrow> valid_title region"
  "valid_title (region @ '' (N)'') \<longleftrightarrow> valid_title region"
  by (auto simp: valid_title_def)

lemma avoid_duplicate_name_fresh:
  "lower value \<notin> set (map lower names) \<Longrightarrow> avoid_duplicate_name lower names value = value"
  by (simp add: avoid_duplicate_name_def)

lemma to_excel_new_sheet:
  assumes "distinct (map lower (''Sheet'' # map fst book @ [title]))"
    and "valid_title title"
  shows "to_excel lower book df title False
           = (book @ [(title, map XText (columns df) # map (map xl_of_cell) (rows df))], None)"
proof -
  from assms(1) have s: "lower ''Sheet'' \<notin> set (map lower (map fst book))"
    and t: "lower title \<notin> set (map lower (map fst book @ [''Sheet'']))"
    by auto
  from t have "title \<notin> fst ` set book"
    by auto
  then have n: "map_of book title = None"
    by (simp add: map_of_eq_None_iff)
  from assms(1) have "title \<noteq> ''Sheet''"
    by auto
  with n assms(2) show ?thesis
    by (simp add: to_excel_def frame_cells_def avoid_duplicate_name_fresh [OF s]
        avoid_duplicate_name_fresh [OF t])
qed

lemma export_pars_region:
  assumes "files fs (csv_path dir region ''p'') = Some (tbl region ''p'')"
    and "files fs (csv_path dir region ''n'') = Some (tbl region ''n'')"
    and "valid_title region"
    and "distinct (map lower (''Sheet'' # map fst book @ [region @ '' (P)'', region @ '' (N)'']))"
  shows "export_pars lower fs dir region [''p'', ''n''] book
           = (book @ region_sheets tbl region, None)"
proof -
  let ?p = "(region @ '' (P)'',
             map XText (columns (tbl region ''p'')) # map (map xl_of_cell) (rows (tbl region ''p'')))"
  have "distinct (map lower (''Sheet'' # map fst book @ [region @ '' (P)'']))"
    using assms(4) by simp
  then have 1: "to_excel lower book (tbl region ''p'') (region @ '' (P)'') False = (book @ [?p], None)"
    using assms(3) by (intro to_excel_new_sheet) (simp_all add: valid_title_pars)
  have "distinct (map lower (''Sheet'' # map fst (book @ [?p]) @ [region @ '' (N)'']))"
    using assms(4) by simp
  then have 2: "to_excel lower (book @ [?p]) (tbl region ''n'') (region @ '' (N)'') False
                  = (book @ region_sheets tbl region, None)"
    using assms(3) to_excel_new_sheet [of lower "book @ [?p]" "region @ '' (N)''" "tbl region ''n''"]
    by (simp add: valid_title_pars region_sheets_def)
  show ?thesis
    using assms(1,2) 1 2 by (simp add: read_csv_def sheet_title_pars)
qed

lemma map_fst_region_sheets: "map fst (region_sheets tbl region) = [region @ '' (P)'', region @ '' (N)'']"
  by (simp add: region_sheets_def)

lemma export_regions_sheets:
  assumes "\<forall>r \<in> set rs. valid_title r"
    and "\<forall>r \<in> set rs. \<forall>p \<in> set [''p'', ''n'']. files fs (csv_path dir r p) = Some (tbl r p)"
    and "distinct (map lower (''Sheet'' # map fst book @ region_titles rs))"
  shows "export_regions lower fs dir rs [''p'', ''n''] book
           = (book @ concat (map (region_sheets tbl) rs), None)"
  using assms
proof (induction rs arbitrary: book)
  case Nil
  then show ?case by simp
next
  case (Cons region rs)
  have "distinct (map lower (''Sheet'' # map fst book @ [region @ '' (P)'', region @ '' (N)'']))"
    using Cons.prems(3) by (simp add: region_titles_def)
  then have one: "export_pars lower fs dir region [''p'', ''n''] book
                    = (book @ region_sheets tbl region, None)"
    using Cons.prems(1,2) by (intro export_pars_region) simp_all
  have "distinct (map lower (''Sheet'' # map fst (book @ region_sheets tbl region) @ region_titles rs))"
    using Cons.prems(3) by (simp add: region_titles_def map_fst_region_sheets)
  then have "export_regions lower fs dir rs [''p'', ''n''] (book @ region_sheets tbl region)
          = ((book @ region_sheets tbl region) @ concat (map (region_sheets tbl) rs), None)"
    using Cons.prems(1,2) by (intro Cons.IH) simp_all
  with one show ?case
    by simp
qed

lemma report_paths:
  "csv_path data_fold ''Glomma'' ''p'' = ''../report_2022/data/Glomma_p.csv''"
  "csv_path data_fold ''Glomma'' ''n'' = ''../report_2022/data/Glomma_n.csv''"
  "csv_path data_fold ''Agder'' ''p'' = ''../report_2022/data/Agder_p.csv''"
  "csv_path data_fold ''Agder'' ''n'' = ''../report_2022/data/Agder_n.csv''"
  "csv_path data_fold ''glomma'' ''p'' = ''../report_2022/data/glomma_p.csv''"
  "csv_path data_fold ''glomma'' ''n'' = ''../report_2022/data/glomma_n.csv''"
  by (simp_all add: csv_path_def path_join_def data_fold_def)

text \<open>
  The region list of the source meets the conditions of the theorem below. Its letters
  outside ASCII are lower-case letters, so \<open>ascii_lower_str\<close> is \<^verbatim>\<open>str.lower\<close> on its titles.
\<close>

lemma source_regions_exportable:
  "regions \<noteq> []"
  "\<forall>r \<in> set regions. valid_title r"
  "distinct (map ascii_lower_str (''Sheet'' # region_titles regions))"
  "pars = [''p'', ''n'']"
  by code_simp+

text \<open>
  Two regions whose names differ only in the case of a letter: the sheets of the second
  region are not titled with the region followed by \<^verbatim>\<open>(P)\<close> or \<^verbatim>\<open>(N)\<close>; the engine appends
  a number to keep the titles apart.
\<close>

theorem exporter_renames_title_equal_but_for_case:
  "raised (tables_to_excel ascii_lower_str case_store xl_path data_fold [''Glomma'', ''glomma''] pars)
     = None
   \<and> map_option (map fst)
       (saved (tables_to_excel ascii_lower_str case_store xl_path data_fold [''Glomma'', ''glomma''] pars))
     = Some [''Glomma (P)'', ''Glomma (N)'', ''glomma (P)1'', ''glomma (N)1'']"
  by code_simp

text \<open>
  Claim C8, as the code has it. Given a list of regions and the parameters
  \<^verbatim>\<open>["p", "n"]\<close>, with every CSV file present, no region holding a character a sheet title
  cannot hold, and the sheet titles different from each other and from the engine's
  default title \<^verbatim>\<open>Sheet\<close> without regard to case, the exporter writes exactly one sheet for
  each pair of a region and a parameter: the sheet is titled with the region followed by
  \<^verbatim>\<open>(P)\<close> or \<^verbatim>\<open>(N)\<close>, holds the labels and the rows of the CSV file and no index column, and
  the sheets come in the order of the loops, regions outside and parameters inside. When
  the workbook path can be written and there is at least one region, this workbook is
  saved and nothing is raised. For Glomma and Agder these are the four sheets
  \<^verbatim>\<open>Glomma (P)\<close>, \<^verbatim>\<open>Glomma (N)\<close>, \<^verbatim>\<open>Agder (P)\<close>, \<^verbatim>\<open>Agder (N)\<close>.
\<close>

theorem exporter_sheets_in_order:
  assumes "\<forall>r \<in> set rs. valid_title r"
    and "\<forall>r \<in> set rs. \<forall>p \<in> set [''p'', ''n'']. files fs (csv_path dir r p) = Some (tbl r p)"
    and "distinct (map lower (''Sheet'' # concat (map (\<lambda>r. [r @ '' (P)'', r @ '' (N)'']) rs)))"
  shows "\<exists>book. export_regions lower fs dir rs [''p'', ''n''] [] = (book, None)
          \<and> book = concat (map (\<lambda>r.
               [(r @ '' (P)'', map XText (columns (tbl r ''p'')) # map (map xl_of_cell) (rows (tbl r ''p''))),
                (r @ '' (N)'', map XText (columns (tbl r ''n'')) # map (map xl_of_cell) (rows (tbl r ''n'')))])
               rs)
          \<and> map fst book = concat (map (\<lambda>r. [r @ '' (P)'', r @ '' (N)'']) rs)
          \<and> length book = 2 * length rs
          \<and> (writable fs path \<and> rs \<noteq> []
               \<longrightarrow> tables_to_excel lower fs path dir rs [''p'', ''n'']
                     = \<lparr>raised = None, saved = Some book\<rparr>)"
proof -
  have e: "export_regions lower fs dir rs [''p'', ''n''] [] = (concat (map (region_sheets tbl) rs), None)"
    using export_regions_sheets [OF assms(1,2), of lower "[]"] assms(3)
    by (simp add: region_titles_def)
  have n: "concat (map (region_sheets tbl) rs) \<noteq> []" if "rs \<noteq> []"
    using that by (cases rs) (simp_all add: region_sheets_def)
  have f: "map fst (concat (map (region_sheets tbl) rs)) = concat (map (\<lambda>r. [r @ '' (P)'', r @ '' (N)'']) rs)"
    by (induction rs) (simp_all add: region_sheets_def)
  have l: "length (concat (map (region_sheets tbl) rs)) = 2 * length rs"
    by (induction rs) (simp_all add: region_sheets_def)
  have r: "region_sheets tbl = (\<lambda>r.
               [(r @ '' (P)'', map XText (columns (tbl r ''p'')) # map (map xl_of_cell) (rows (tbl r ''p''))),
                (r @ '' (N)'', map XText (columns (tbl r ''n'')) # map (map xl_of_cell) (rows (tbl r ''n'')))])"
    by (simp add: fun_eq_iff region_sheets_def)
  have "tables_to_excel lower fs path dir rs [''p'', ''n'']
          = \<lparr>raised = None, saved = Some (concat (map (region_sheets tbl) rs))\<rparr>"
    if "writable fs path" "rs \<noteq> []"
    using that e n by (simp add: tables_to_excel_def)
  with e f l show ?thesis
    unfolding r by simp
qed

theorem exporter_sheets_in_order_witness:
  "\<exists>book. tables_to_excel ascii_lower_str report_store xl_path data_fold [''Glomma'', ''Agder''] pars
             = \<lparr>raised = None, saved = Some book\<rparr>
      \<and> map fst book = [''Glomma (P)'', ''Glomma (N)'', ''Agder (P)'', ''Agder (N)'']
      \<and> length book = 4
      \<and> map snd book
          = [[[XText Aar, XText ''Jordbruk''], [XNumber 2021, XNumber 3], [XNumber 2022, XNumber (5 / 2)]],
             [[XText Aar, XText ''Jordbruk''], [XNumber 2021, XNumber 40], [XNumber 2022, XNumber (81 / 2)]],
             [[XText Aar, XText ''Jordbruk''], [XNumber 2021, XNumber 3], [XNumber 2022, XNumber (5 / 2)]],
             [[XText Aar, XText ''Jordbruk''], [XNumber 2021, XNumber 40], [XNumber 2022, XNumber (81 / 2)]]]"
proof -
  have w: "writable report_store xl_path \<and> [''Glomma'', ''Agder''] \<noteq> []"
    by (simp add: report_store_def)
  have v: "\<forall>r \<in> set [''Glomma'', ''Agder'']. valid_title r"
    by (simp add: valid_title_def)
  have f: "\<forall>r \<in> set [''Glomma'', ''Agder'']. \<forall>p \<in> set [''p'', ''n''].
             files report_store (csv_path data_fold r p) = Some (report_table r p)"
    by (simp add: report_store_def report_paths)
  have d: "distinct (map ascii_lower_str
             (''Sheet'' # concat (map (\<lambda>r. [r @ '' (P)'', r @ '' (N)'']) [''Glomma'', ''Agder''])))"
    by code_simp
  from exporter_sheets_in_order [OF v f d, of xl_path] w
  show ?thesis
    by (simp add: pars_def report_table_def)
qed

end
